theory Spec2Isabelle
  imports Main
begin

section \<open>Runtime compilation helper (Common/nvrtc_helper.h)\<close>

text \<open>
  The header defines one macro, \<^verbatim>\<open>NVRTC_SAFE_CALL\<close>, and two free functions,
  \<^verbatim>\<open>compileFileToCUBIN\<close> and \<^verbatim>\<open>loadCUBIN\<close>. Both functions are straight-line sequences
  of calls into the runtime-compilation library (nvrtc) and the driver library (cu...),
  with error checks that call \<^verbatim>\<open>exit\<close>.

  The embedding is a state-and-error monad. The state holds what the functions can
  observe or change: the opaque state of the external libraries, the log of calls made
  (with arguments and results), the two output streams, the heap blocks that the
  functions allocate, fill and free, and the caller's two output variables.
\<close>

subsection \<open>Values\<close>

type_synonym addr = nat
type_synonym nvrtcResult = nat
type_synonym CUresult = nat
type_synonym CUdevice = int
type_synonym nvrtcProgram = nat
type_synonym CUmodule = nat
type_synonym CUcontext = nat

definition NVRTC_SUCCESS :: nvrtcResult where
  "NVRTC_SUCCESS = 0"

definition CUDA_SUCCESS :: CUresult where
  "CUDA_SUCCESS = 0"

definition EXIT_FAILURE :: nat where
  "EXIT_FAILURE = 1"

definition NUL :: char where
  "NUL = CHR 0x00"

definition NL :: char where
  "NL = CHR 0x0A"

datatype CUdevice_attribute =
    CU_DEVICE_ATTRIBUTE_COMPUTE_CAPABILITY_MAJOR
  | CU_DEVICE_ATTRIBUTE_COMPUTE_CAPABILITY_MINOR

subsection \<open>Formatting\<close>

text \<open>The conversion \<^verbatim>\<open>%d\<close> of printf: decimal digits, with a minus sign for a negative value.\<close>

fun dec_nat :: "nat \<Rightarrow> string" where
  "dec_nat n = (if n < 10 then [''0123456789'' ! n]
                else dec_nat (n div 10) @ [''0123456789'' ! (n mod 10)])"

declare dec_nat.simps [simp del]

definition fmt_d :: "int \<Rightarrow> string" where
  "fmt_d i = (if i < 0 then CHR ''-'' # dec_nat (nat (- i)) else dec_nat (nat i))"

text \<open>
  \<^verbatim>\<open>snprintf(buf, n, ...)\<close> stores at most \<open>n - 1\<close> characters of the formatted text and a
  terminator; the value is the C string left in the buffer. Both calls of the header
  pass \<open>n > 0\<close>.
\<close>

definition snprintf :: "nat \<Rightarrow> string \<Rightarrow> string" where
  "snprintf n formatted = take (n - 1) formatted"

text \<open>
  \<^verbatim>\<open>sprintf_s(buf, n, ...)\<close> (the Windows build) stores the whole text when it fits with
  its terminator, and otherwise invokes the invalid-parameter handler, which ends the
  process: \<open>None\<close>.
\<close>

definition sprintf_s :: "nat \<Rightarrow> string \<Rightarrow> string option" where
  "sprintf_s n formatted = (if length formatted < n then Some formatted else None)"

text \<open>\<^verbatim>\<open>strlen\<close> and the text that \<^verbatim>\<open>operator<<\<close> prints: the bytes before the first NUL.\<close>

definition c_str :: "string \<Rightarrow> string" where
  "c_str buf = takeWhile (\<lambda>c. c \<noteq> NUL) buf"

definition strlen :: "string \<Rightarrow> nat" where
  "strlen buf = length (c_str buf)"

text \<open>
  \<^verbatim>\<open>std::string::find(needle)\<close>: the position of the first occurrence, \<open>None\<close> for
  \<^verbatim>\<open>npos\<close>.
\<close>

fun string_find :: "string \<Rightarrow> string \<Rightarrow> nat option" where
  "string_find [] needle = (if needle = [] then Some 0 else None)"
| "string_find (c # cs) needle =
     (if take (length needle) (c # cs) = needle then Some 0
      else map_option Suc (string_find cs needle))"

subsection \<open>Sizes and the input stream\<close>

text \<open>
  \<^verbatim>\<open>size_t\<close> is taken to have 64 bits. The conversion \<^verbatim>\<open>(size_t)pos\<close> of a stream
  position, and every sum computed in \<^verbatim>\<open>size_t\<close>, is reduced modulo \<open>2 ^ 64\<close>.
\<close>

definition size_t :: "int \<Rightarrow> nat" where
  "size_t i = nat (i mod 2 ^ 64)"

text \<open>
  An open \<^verbatim>\<open>std::ifstream\<close>. \<open>end_pos\<close> is the position at the end of the stream, where
  the flag \<^verbatim>\<open>std::ios::ate\<close> puts the stream when it is opened: the size of a regular
  file, \<open>-1\<close> when the stream is in a failed state, and whatever the system reports for
  another kind of file. \<open>bytes\<close> are the bytes that the stream delivers from its
  beginning (none when the stream is in a failed state).
\<close>

record ifstream =
  end_pos :: int
  bytes :: string

text \<open>
  \<^verbatim>\<open>tellg\<close> on the stream as opened; \<^verbatim>\<open>seekg(off, std::ios::beg)\<close>, which gives the new
  position; and \<^verbatim>\<open>read(buf, n)\<close> at the position \<open>pos\<close>: the bytes stored into the
  buffer, fewer than \<open>n\<close> when the stream ends before.
\<close>

definition tellg :: "ifstream \<Rightarrow> int" where
  "tellg f = end_pos f"

definition seekg :: "nat \<Rightarrow> nat" where
  "seekg off = off"

definition stream_read :: "ifstream \<Rightarrow> nat \<Rightarrow> nat \<Rightarrow> string" where
  "stream_read f pos n = take n (drop pos (bytes f))"

subsection \<open>The external libraries\<close>

text \<open>
  The compiler library, the driver library, the file system and the helpers of the
  other sample headers are parameters. Every call takes the opaque state \<open>'w\<close> of the
  outside world and returns its results with the new state, so a library may answer
  according to everything that was called before. \<open>windows\<close> says which branch of the
  \<^verbatim>\<open>#if defined(WIN32) ...\<close> conditionals was compiled. \<open>allocatable n\<close> says whether
  the allocator can serve a request of \<open>n\<close> bytes.
\<close>

record 'w ext =
  windows :: bool
  allocatable :: "nat \<Rightarrow> 'w \<Rightarrow> bool"
  ifstream_open :: "string \<Rightarrow> 'w \<Rightarrow> ifstream option"
  select_device :: "int \<Rightarrow> string list \<Rightarrow> 'w \<Rightarrow> (string + CUdevice) \<times> 'w"
  driver_error_text :: "CUresult \<Rightarrow> string"
  sdkFindFilePath :: "string \<Rightarrow> string option \<Rightarrow> 'w \<Rightarrow> string option \<times> 'w"
  cuDeviceGetAttribute :: "CUdevice_attribute \<Rightarrow> CUdevice \<Rightarrow> 'w \<Rightarrow> (CUresult \<times> int) \<times> 'w"
  cuDeviceGetName :: "nat \<Rightarrow> CUdevice \<Rightarrow> 'w \<Rightarrow> (CUresult \<times> string) \<times> 'w"
  cuInit :: "nat \<Rightarrow> 'w \<Rightarrow> CUresult \<times> 'w"
  cuCtxCreate :: "nat \<Rightarrow> CUdevice \<Rightarrow> 'w \<Rightarrow> (CUresult \<times> CUcontext) \<times> 'w"
  cuModuleLoadData :: "string \<Rightarrow> 'w \<Rightarrow> (CUresult \<times> CUmodule) \<times> 'w"
  nvrtcCreateProgram :: "string \<Rightarrow> string \<Rightarrow> 'w \<Rightarrow> (nvrtcResult \<times> nvrtcProgram) \<times> 'w"
  nvrtcCompileProgram :: "nvrtcProgram \<Rightarrow> string list \<Rightarrow> 'w \<Rightarrow> nvrtcResult \<times> 'w"
  nvrtcGetProgramLogSize :: "nvrtcProgram \<Rightarrow> 'w \<Rightarrow> (nvrtcResult \<times> nat) \<times> 'w"
  nvrtcGetProgramLog :: "nvrtcProgram \<Rightarrow> 'w \<Rightarrow> (nvrtcResult \<times> string) \<times> 'w"
  nvrtcGetCUBINSize :: "nvrtcProgram \<Rightarrow> 'w \<Rightarrow> (nvrtcResult \<times> nat) \<times> 'w"
  nvrtcGetCUBIN :: "nvrtcProgram \<Rightarrow> 'w \<Rightarrow> (nvrtcResult \<times> string) \<times> 'w"
  nvrtcGetErrorString :: "nvrtcResult \<Rightarrow> 'w \<Rightarrow> string \<times> 'w"

text \<open>
  One entry of the call log: the function called, its arguments, then its results.
  Opening the file is logged with the name and whether the stream is open; the device
  selection is logged with its outcome; \<open>Ev_free\<close> is a call of \<^verbatim>\<open>free\<close>.
\<close>

datatype event =
    Ev_ifstream_open string bool
  | Ev_findCudaDeviceDRV "string + CUdevice"
  | Ev_sdkFindFilePath string "string option" "string option"
  | Ev_cuDeviceGetAttribute CUdevice_attribute CUdevice CUresult int
  | Ev_cuDeviceGetName nat CUdevice CUresult string
  | Ev_cuInit nat CUresult
  | Ev_cuCtxCreate nat CUdevice CUresult CUcontext
  | Ev_cuModuleLoadData string CUresult CUmodule
  | Ev_nvrtcCreateProgram string string nvrtcResult nvrtcProgram
  | Ev_nvrtcCompileProgram nvrtcProgram "string list" nvrtcResult
  | Ev_nvrtcGetProgramLogSize nvrtcProgram nvrtcResult nat
  | Ev_nvrtcGetProgramLog nvrtcProgram nvrtcResult string
  | Ev_nvrtcGetCUBINSize nvrtcProgram nvrtcResult nat
  | Ev_nvrtcGetCUBIN nvrtcProgram nvrtcResult string
  | Ev_nvrtcGetErrorString nvrtcResult string
  | Ev_free addr

subsection \<open>Process state and control\<close>

record 'w state =
  world :: 'w
  trace :: "event list"
  cerr :: "string list"
  cout :: "string list"
  heap :: "addr \<Rightarrow> string option"
  brk :: addr
  cubinResult :: addr
  cubinResultSize :: nat

text \<open>
  How a function ends: it returns a value, it calls \<^verbatim>\<open>exit\<close> with a status, an uncaught
  C++ exception or the invalid-parameter handler ends the process (\<open>Terminated\<close>), or
  its behaviour is undefined: it writes through a null pointer or outside a block, or it
  reads or frees memory that is not a live block with determined contents.
\<close>

datatype 'a result = Ret 'a | Exited nat | Terminated | Undefined

type_synonym ('w, 'a) prog = "'w state \<Rightarrow> 'a result \<times> 'w state"

definition return :: "'a \<Rightarrow> ('w, 'a) prog" where
  "return x s = (Ret x, s)"

definition bind :: "('w, 'a) prog \<Rightarrow> ('a \<Rightarrow> ('w, 'b) prog) \<Rightarrow> ('w, 'b) prog" where
  "bind m f s =
     (case m s of
        (Ret x, s') \<Rightarrow> f x s'
      | (Exited c, s') \<Rightarrow> (Exited c, s')
      | (Terminated, s') \<Rightarrow> (Terminated, s')
      | (Undefined, s') \<Rightarrow> (Undefined, s'))"

definition exit_process :: "nat \<Rightarrow> ('w, 'a) prog" where
  "exit_process c s = (Exited c, s)"

definition terminate :: "('w, 'a) prog" where
  "terminate s = (Terminated, s)"

definition undefined_behaviour :: "('w, 'a) prog" where
  "undefined_behaviour s = (Undefined, s)"

text \<open>Each \<^verbatim>\<open><<\<close> operand and each \<^verbatim>\<open>printf\<close> is one item of its stream.\<close>

definition put_cerr :: "string list \<Rightarrow> ('w, unit) prog" where
  "put_cerr items s = (Ret (), s\<lparr>cerr := cerr s @ items\<rparr>)"

definition put_cout :: "string list \<Rightarrow> ('w, unit) prog" where
  "put_cout items s = (Ret (), s\<lparr>cout := cout s @ items\<rparr>)"

text \<open>A call into the outside world: run it on the world's state and log it.\<close>

definition extcall :: "('w \<Rightarrow> 'r \<times> 'w) \<Rightarrow> ('r \<Rightarrow> event) \<Rightarrow> ('w, 'r) prog" where
  "extcall f ev s =
     (case f (world s) of
        (r, w') \<Rightarrow> (Ret r, s\<lparr>world := w', trace := trace s @ [ev r]\<rparr>))"

text \<open>
  The heap maps the address of a live block to what the block holds for its reader (the
  bytes of a byte buffer, the text of a C string), once the source has filled it. A block
  that was only allocated, or that was filled leaving a gap of bytes never written, has
  no entry, and reading it is undefined. (The source frees no block that it has not
  filled and read.) \<^verbatim>\<open>new char[n]\<close> and \<^verbatim>\<open>malloc(n)\<close> take the next fresh address when
  the allocator can serve the request. When it cannot, \<^verbatim>\<open>new\<close> throws
  \<^verbatim>\<open>std::bad_alloc\<close>, which nothing catches, and \<^verbatim>\<open>malloc\<close> returns a null pointer:
  \<open>None\<close>.
\<close>

definition operator_new :: "'w ext \<Rightarrow> nat \<Rightarrow> ('w, addr) prog" where
  "operator_new E n s =
     (if allocatable E n (world s) then
        (Ret (brk s), s\<lparr>heap := (heap s)(brk s := None), brk := Suc (brk s)\<rparr>)
      else (Terminated, s))"

definition malloc :: "'w ext \<Rightarrow> nat \<Rightarrow> ('w, addr option) prog" where
  "malloc E n s =
     (if allocatable E n (world s) then
        (Ret (Some (brk s)), s\<lparr>heap := (heap s)(brk s := None), brk := Suc (brk s)\<rparr>)
      else (Ret None, s))"

text \<open>
  The source never tests the result of \<^verbatim>\<open>malloc\<close>: the pointer is written through as it
  is.
\<close>

definition nonnull :: "addr option \<Rightarrow> ('w, addr) prog" where
  "nonnull ptr = (case ptr of None \<Rightarrow> undefined_behaviour | Some p \<Rightarrow> return p)"

definition store_block :: "addr \<Rightarrow> string \<Rightarrow> ('w, unit) prog" where
  "store_block p contents s = (Ret (), s\<lparr>heap := (heap s)(p \<mapsto> contents)\<rparr>)"

text \<open>
  A block of \<open>cap\<close> bytes into which the first \<open>n\<close> bytes were to be stored, and then a
  NUL at index \<open>n\<close> (\<^verbatim>\<open>buf[n] = '\x0'\<close>). The index must lie inside the block. When only
  the bytes \<open>got\<close>, fewer than \<open>n\<close>, were stored, the bytes between them and the NUL were
  never written, and the block has no determined contents.
\<close>

definition terminated_buffer :: "nat \<Rightarrow> string \<Rightarrow> string option" where
  "terminated_buffer n got = (if length got = n then Some (got @ [NUL]) else None)"

definition store_terminated :: "addr \<Rightarrow> nat \<Rightarrow> nat \<Rightarrow> string \<Rightarrow> ('w, unit) prog" where
  "store_terminated p cap n got s =
     (if n < cap then (Ret (), s\<lparr>heap := (heap s)(p := terminated_buffer n got)\<rparr>)
      else (Undefined, s))"

definition free :: "addr \<Rightarrow> ('w, unit) prog" where
  "free p s =
     (case heap s p of
        None \<Rightarrow> (Undefined, s)
      | Some _ \<Rightarrow> (Ret (), s\<lparr>heap := (heap s)(p := None), trace := trace s @ [Ev_free p]\<rparr>))"

text \<open>
  The constructor of \<^verbatim>\<open>std::ifstream\<close> (line 64): the stream, or \<open>None\<close> when the file
  cannot be opened.
\<close>

fun is_open :: "ifstream option \<Rightarrow> bool" where
  "is_open None = False"
| "is_open (Some _) = True"

definition open_file :: "'w ext \<Rightarrow> string \<Rightarrow> ('w, ifstream option) prog" where
  "open_file E fname s =
     (let inputFile = ifstream_open E fname (world s)
      in (Ret inputFile, s\<lparr>trace := trace s @ [Ev_ifstream_open fname (is_open inputFile)]\<rparr>))"

definition load_block :: "addr \<Rightarrow> ('w, string) prog" where
  "load_block p s = (case heap s p of None \<Rightarrow> (Undefined, s) | Some b \<Rightarrow> (Ret b, s))"

fun free_all :: "addr list \<Rightarrow> ('w, unit) prog" where
  "free_all [] = return ()"
| "free_all (p # ps) = bind (free p) (\<lambda>_. free_all ps)"

fun load_all :: "addr list \<Rightarrow> ('w, string list) prog" where
  "load_all [] = return []"
| "load_all (p # ps) =
     bind (load_block p) (\<lambda>b. bind (load_all ps) (\<lambda>bs. return (b # bs)))"

definition set_cubinResult :: "addr \<Rightarrow> ('w, unit) prog" where
  "set_cubinResult p s = (Ret (), s\<lparr>cubinResult := p\<rparr>)"

definition set_cubinResultSize :: "nat \<Rightarrow> ('w, unit) prog" where
  "set_cubinResultSize n s = (Ret (), s\<lparr>cubinResultSize := n\<rparr>)"

text \<open>\<open>argv[0]\<close>: null when the argument list is empty.\<close>

definition argv0 :: "string list \<Rightarrow> string option" where
  "argv0 argv = (case argv of [] \<Rightarrow> None | a # _ \<Rightarrow> Some a)"

text \<open>
  The two branches of each \<^verbatim>\<open>#if defined(WIN32) ... #else ... #endif\<close>: \<^verbatim>\<open>sprintf_s\<close>
  on Windows, \<^verbatim>\<open>snprintf\<close> elsewhere, both with the buffer size the source passes.
\<close>

definition formatted_text :: "'w ext \<Rightarrow> nat \<Rightarrow> nat \<Rightarrow> string \<Rightarrow> string option" where
  "formatted_text E size_win size_posix formatted =
     (if windows E then sprintf_s size_win formatted
      else Some (snprintf size_posix formatted))"

definition format_buf :: "'w ext \<Rightarrow> nat \<Rightarrow> nat \<Rightarrow> string \<Rightarrow> ('w, string) prog" where
  "format_buf E size_win size_posix formatted =
     (case formatted_text E size_win size_posix formatted of
        None \<Rightarrow> terminate
      | Some str \<Rightarrow> return str)"

text \<open>
  The same on a buffer obtained from \<^verbatim>\<open>malloc\<close>: with a null buffer \<^verbatim>\<open>sprintf_s\<close>
  invokes the invalid-parameter handler and \<^verbatim>\<open>snprintf\<close> writes through the null
  pointer; otherwise the text left by the call is the block's contents.
\<close>

definition format_into ::
  "'w ext \<Rightarrow> addr option \<Rightarrow> nat \<Rightarrow> nat \<Rightarrow> string \<Rightarrow> ('w, addr) prog" where
  "format_into E ptr size_win size_posix formatted =
     (case ptr of
        None \<Rightarrow> if windows E then terminate else undefined_behaviour
      | Some p \<Rightarrow>
          bind (format_buf E size_win size_posix formatted) (\<lambda>str.
          bind (store_block p str) (\<lambda>_.
          return p)))"

subsection \<open>The macro and the helpers of the driver-API header\<close>

text \<open>Lines 40-48.\<close>

definition diagnostic :: "string \<Rightarrow> string \<Rightarrow> string list" where
  "diagnostic Name msg = [NL # ''error: '', Name, '' failed with error '', msg]"

definition NVRTC_SAFE_CALL :: "'w ext \<Rightarrow> string \<Rightarrow> nvrtcResult \<Rightarrow> ('w, unit) prog" where
  "NVRTC_SAFE_CALL E Name result =
     (if result \<noteq> NVRTC_SUCCESS then
        bind (extcall (nvrtcGetErrorString E result) (Ev_nvrtcGetErrorString result)) (\<lambda>msg.
        bind (put_cerr (diagnostic Name msg)) (\<lambda>_.
        exit_process 1))
      else return ())"

text \<open>
  Modelled from the spec: the diagnostic of the helpers of helper_cuda_drvapi.h, which is
  not among the sources. Its wording is not known; it is a text that is not empty: a
  label, followed by the text that the environment gives for the error.
\<close>

definition driver_diagnostic :: "string \<Rightarrow> string list" where
  "driver_diagnostic text = [''CUDA driver error: '', text]"

text \<open>
  Modelled from the spec: the macro \<^verbatim>\<open>checkCudaErrors\<close> of helper_cuda_drvapi.h, which is
  not among the sources. The spec, section 7: every failure, a driver error included,
  "is handled by printing a diagnostic and terminating the process immediately". The
  text for the error code is the parameter \<open>driver_error_text\<close>.
\<close>

definition checkCudaErrors :: "'w ext \<Rightarrow> CUresult \<Rightarrow> ('w, unit) prog" where
  "checkCudaErrors E err =
     (if err \<noteq> CUDA_SUCCESS then
        bind (put_cerr (driver_diagnostic (driver_error_text E err))) (\<lambda>_.
        exit_process EXIT_FAILURE)
      else return ())"

text \<open>
  Modelled from the spec: the helper \<^verbatim>\<open>findCudaDeviceDRV\<close> of helper_cuda_drvapi.h, which
  is not among the sources. It selects a device from the argument list (the parameter
  \<open>select_device\<close>); when no device can be selected (\<open>Inl\<close>, with the text for the
  error) it prints the diagnostic and terminates the process, as section 7 of the spec
  says of every driver error.
\<close>

definition findCudaDeviceDRV :: "'w ext \<Rightarrow> int \<Rightarrow> string list \<Rightarrow> ('w, CUdevice) prog" where
  "findCudaDeviceDRV E argc argv =
     bind (extcall (select_device E argc argv) Ev_findCudaDeviceDRV) (\<lambda>r.
     case r of
       Inl msg \<Rightarrow> bind (put_cerr (driver_diagnostic msg)) (\<lambda>_. exit_process EXIT_FAILURE)
     | Inr dev \<Rightarrow> return dev)"

subsection \<open>compileFileToCUBIN (lines 57-196)\<close>

text \<open>
  \<open>filename\<close> is \<open>None\<close> for a null pointer. The statements are taken in the order of
  the source. A block gets its address where the source allocates it and its contents
  where the source has filled it. Lines 64-80 are: the constructor of the stream, the
  test of \<^verbatim>\<open>is_open\<close>, \<^verbatim>\<open>tellg\<close>, the conversion to \<^verbatim>\<open>size_t\<close>, \<^verbatim>\<open>new char[inputSize + 1]\<close>,
  \<^verbatim>\<open>seekg\<close>, \<^verbatim>\<open>read\<close> and the store of the terminator; closing the stream changes nothing
  that the function or its caller observes. The compiler library stores at most as many
  bytes as the size it reported (\<open>take logSize\<close>, \<open>take codeSize\<close>). What is handed to
  the library for a buffer is the contents of the block.
\<close>

definition compileFileToCUBIN ::
  "'w ext \<Rightarrow> string option \<Rightarrow> int \<Rightarrow> string list \<Rightarrow> int \<Rightarrow> ('w, unit) prog" where
  "compileFileToCUBIN E filename argc argv requiresCGheaders =
   (case filename of
      None \<Rightarrow>
        bind (put_cerr [NL # ''error: filename is empty for compileFileToCUBIN()!'' @ [NL]]) (\<lambda>_.
        exit_process 1)
    | Some fname \<Rightarrow>
       bind (open_file E fname) (\<lambda>inputFile.
        case inputFile of
          None \<Rightarrow>
            bind (put_cerr [NL # ''error: unable to open '', fname, '' for reading!'' @ [NL]]) (\<lambda>_.
            exit_process 1)
        | Some f \<Rightarrow>
           (let pos = tellg f;
                inputSize = size_t pos in
            bind (operator_new E (size_t (int inputSize + 1))) (\<lambda>memBlock.
            let position = seekg 0;
                got = stream_read f position inputSize in
            bind (store_terminated memBlock (size_t (int inputSize + 1)) inputSize got) (\<lambda>_.
            let numCompileOptions = (0::nat) in
            bind (findCudaDeviceDRV E argc argv) (\<lambda>cuDevice.
            bind (extcall (cuDeviceGetAttribute E CU_DEVICE_ATTRIBUTE_COMPUTE_CAPABILITY_MAJOR cuDevice)
                    (\<lambda>(r, v). Ev_cuDeviceGetAttribute CU_DEVICE_ATTRIBUTE_COMPUTE_CAPABILITY_MAJOR cuDevice r v))
              (\<lambda>(err, major).
            bind (checkCudaErrors E err) (\<lambda>_.
            bind (extcall (cuDeviceGetAttribute E CU_DEVICE_ATTRIBUTE_COMPUTE_CAPABILITY_MINOR cuDevice)
                    (\<lambda>(r, v). Ev_cuDeviceGetAttribute CU_DEVICE_ATTRIBUTE_COMPUTE_CAPABILITY_MINOR cuDevice r v))
              (\<lambda>(err, minor).
            bind (checkCudaErrors E err) (\<lambda>_.
            let compileOptions = ''--gpu-architecture=sm_'' in
            bind (malloc E (length compileOptions + 10)) (\<lambda>ptr.
            bind (format_into E ptr (length compileOptions + 10) (length compileOptions + 10)
                    (compileOptions @ fmt_d major @ fmt_d minor)) (\<lambda>p.
            let compileParams = [p]; numCompileOptions = numCompileOptions + 1 in
            bind (if requiresCGheaders \<noteq> 0 then
                    bind (format_buf E 256 256 ''cooperative_groups.h'') (\<lambda>HeaderNames.
                    let compileOptions = ''--include-path='' in
                    bind (extcall (sdkFindFilePath E HeaderNames (argv0 argv))
                            (Ev_sdkFindFilePath HeaderNames (argv0 argv))) (\<lambda>strPath.
                    case strPath of
                      None \<Rightarrow>
                        bind (put_cerr [NL # ''error: header file '', HeaderNames, '' not found!'' @ [NL]]) (\<lambda>_.
                        exit_process 1)
                    | Some path \<Rightarrow>
                        if path \<noteq> [] then
                          (case string_find path HeaderNames of
                             None \<Rightarrow> terminate
                           | Some found \<Rightarrow>
                              let path = take found path;
                                  compileOptions = compileOptions @ path in
                              bind (malloc E (length compileOptions + 1)) (\<lambda>ptr.
                              bind (format_into E ptr (length compileOptions + 1) (length compileOptions)
                                      compileOptions) (\<lambda>p.
                              return (compileParams @ [p], numCompileOptions + 1))))
                        else
                          bind (put_cout [NL # ''CooperativeGroups headers not found, please install it in ''
                                  @ (case argv0 argv of None \<Rightarrow> ''(null)'' | Some a \<Rightarrow> a)
                                  @ '' sample directory..'' @ [NL] @ '' Exiting..'' @ [NL]]) (\<lambda>_.
                          exit_process 1)))
                  else return (compileParams, numCompileOptions))
              (\<lambda>(compileParams, numCompileOptions).
            bind (load_block memBlock) (\<lambda>src.
            bind (extcall (nvrtcCreateProgram E src fname)
                    (\<lambda>(r, prog). Ev_nvrtcCreateProgram src fname r prog)) (\<lambda>(result, prog).
            bind (NVRTC_SAFE_CALL E ''nvrtcCreateProgram'' result) (\<lambda>_.
            bind (load_all (take numCompileOptions compileParams)) (\<lambda>options.
            bind (extcall (nvrtcCompileProgram E prog options)
                    (Ev_nvrtcCompileProgram prog options)) (\<lambda>res.
            bind (extcall (nvrtcGetProgramLogSize E prog)
                    (\<lambda>(r, n). Ev_nvrtcGetProgramLogSize prog r n)) (\<lambda>(result, logSize).
            bind (NVRTC_SAFE_CALL E ''nvrtcGetProgramLogSize'' result) (\<lambda>_.
            bind (malloc E (size_t (int logSize + 1))) (\<lambda>ptr.
            bind (nonnull ptr) (\<lambda>log.
            bind (extcall (nvrtcGetProgramLog E prog)
                    (\<lambda>(r, b). Ev_nvrtcGetProgramLog prog r b)) (\<lambda>(result, stored).
            bind (NVRTC_SAFE_CALL E ''nvrtcGetProgramLog'' result) (\<lambda>_.
            bind (store_terminated log (size_t (int logSize + 1)) logSize (take logSize stored)) (\<lambda>_.
            bind (load_block log) (\<lambda>logText.
            bind (if strlen logText \<ge> 2 then
                    put_cerr [NL # '' compilation log ---'' @ [NL], c_str logText,
                              NL # '' end log ---'' @ [NL]]
                  else return ()) (\<lambda>_.
            bind (free log) (\<lambda>_.
            bind (NVRTC_SAFE_CALL E ''nvrtcCompileProgram'' res) (\<lambda>_.
            bind (extcall (nvrtcGetCUBINSize E prog)
                    (\<lambda>(r, n). Ev_nvrtcGetCUBINSize prog r n)) (\<lambda>(result, codeSize).
            bind (NVRTC_SAFE_CALL E ''nvrtcGetCUBINSize'' result) (\<lambda>_.
            bind (operator_new E codeSize) (\<lambda>code.
            bind (extcall (nvrtcGetCUBIN E prog)
                    (\<lambda>(r, b). Ev_nvrtcGetCUBIN prog r b)) (\<lambda>(result, stored).
            bind (NVRTC_SAFE_CALL E ''nvrtcGetCUBIN'' result) (\<lambda>_.
            bind (store_block code (take codeSize stored)) (\<lambda>_.
            bind (set_cubinResult code) (\<lambda>_.
            bind (set_cubinResultSize codeSize) (\<lambda>_.
            free_all (take numCompileOptions compileParams))))))))))))))))))))))))))))))))))))))"

subsection \<open>loadCUBIN (lines 203-230)\<close>

definition loadCUBIN :: "'w ext \<Rightarrow> addr \<Rightarrow> int \<Rightarrow> string list \<Rightarrow> ('w, CUmodule) prog" where
  "loadCUBIN E cubin argc argv =
     bind (findCudaDeviceDRV E argc argv) (\<lambda>cuDevice.
     bind (extcall (cuDeviceGetAttribute E CU_DEVICE_ATTRIBUTE_COMPUTE_CAPABILITY_MAJOR cuDevice)
             (\<lambda>(r, v). Ev_cuDeviceGetAttribute CU_DEVICE_ATTRIBUTE_COMPUTE_CAPABILITY_MAJOR cuDevice r v))
       (\<lambda>(err, major).
     bind (checkCudaErrors E err) (\<lambda>_.
     bind (extcall (cuDeviceGetAttribute E CU_DEVICE_ATTRIBUTE_COMPUTE_CAPABILITY_MINOR cuDevice)
             (\<lambda>(r, v). Ev_cuDeviceGetAttribute CU_DEVICE_ATTRIBUTE_COMPUTE_CAPABILITY_MINOR cuDevice r v))
       (\<lambda>(err, minor).
     bind (checkCudaErrors E err) (\<lambda>_.
     bind (extcall (cuDeviceGetName E 256 cuDevice)
             (\<lambda>(r, n). Ev_cuDeviceGetName 256 cuDevice r n)) (\<lambda>(err, deviceName).
     bind (checkCudaErrors E err) (\<lambda>_.
     bind (put_cout [''> GPU Device has SM '' @ fmt_d major @ ''.'' @ fmt_d minor
                     @ '' compute capability'' @ [NL]]) (\<lambda>_.
     bind (extcall (cuInit E 0) (Ev_cuInit 0)) (\<lambda>err.
     bind (checkCudaErrors E err) (\<lambda>_.
     bind (extcall (cuCtxCreate E 0 cuDevice)
             (\<lambda>(r, c). Ev_cuCtxCreate 0 cuDevice r c)) (\<lambda>(err, context).
     bind (checkCudaErrors E err) (\<lambda>_.
     bind (load_block cubin) (\<lambda>image.
     bind (extcall (cuModuleLoadData E image)
             (\<lambda>(r, m). Ev_cuModuleLoadData image r m)) (\<lambda>(err, module).
     bind (checkCudaErrors E err) (\<lambda>_.
     bind (free cubin) (\<lambda>_.
     return module))))))))))))))))"

subsection \<open>Observing a run\<close>

definition outcome :: "('w, 'a) prog \<Rightarrow> 'w state \<Rightarrow> 'a result" where
  "outcome m s = fst (m s)"

definition final :: "('w, 'a) prog \<Rightarrow> 'w state \<Rightarrow> 'w state" where
  "final m s = snd (m s)"

text \<open>The calls a run makes and what it prints: what it appends to the log and the streams.\<close>

definition events_of :: "('w, 'a) prog \<Rightarrow> 'w state \<Rightarrow> event list" where
  "events_of m s = drop (length (trace s)) (trace (final m s))"

definition printed_err :: "('w, 'a) prog \<Rightarrow> 'w state \<Rightarrow> string list" where
  "printed_err m s = drop (length (cerr s)) (cerr (final m s))"

definition printed_out :: "('w, 'a) prog \<Rightarrow> 'w state \<Rightarrow> string list" where
  "printed_out m s = drop (length (cout s)) (cout (final m s))"

fun is_exit :: "'a result \<Rightarrow> bool" where
  "is_exit (Exited c) = True"
| "is_exit _ = False"

text \<open>
  A logged call failed: the stream is not open, no device was selected, the header was
  not found (a null or an empty path), or a library call returned a code other than
  success.
\<close>

fun failed :: "event \<Rightarrow> bool" where
  "failed (Ev_ifstream_open _ opened) = (\<not> opened)"
| "failed (Ev_findCudaDeviceDRV r) = isl r"
| "failed (Ev_sdkFindFilePath _ _ r) = (r = None \<or> r = Some [])"
| "failed (Ev_cuDeviceGetAttribute _ _ r _) = (r \<noteq> CUDA_SUCCESS)"
| "failed (Ev_cuDeviceGetName _ _ r _) = (r \<noteq> CUDA_SUCCESS)"
| "failed (Ev_cuInit _ r) = (r \<noteq> CUDA_SUCCESS)"
| "failed (Ev_cuCtxCreate _ _ r _) = (r \<noteq> CUDA_SUCCESS)"
| "failed (Ev_cuModuleLoadData _ r _) = (r \<noteq> CUDA_SUCCESS)"
| "failed (Ev_nvrtcCreateProgram _ _ r _) = (r \<noteq> NVRTC_SUCCESS)"
| "failed (Ev_nvrtcCompileProgram _ _ r) = (r \<noteq> NVRTC_SUCCESS)"
| "failed (Ev_nvrtcGetProgramLogSize _ r _) = (r \<noteq> NVRTC_SUCCESS)"
| "failed (Ev_nvrtcGetProgramLog _ r _) = (r \<noteq> NVRTC_SUCCESS)"
| "failed (Ev_nvrtcGetCUBINSize _ r _) = (r \<noteq> NVRTC_SUCCESS)"
| "failed (Ev_nvrtcGetCUBIN _ r _) = (r \<noteq> NVRTC_SUCCESS)"
| "failed (Ev_nvrtcGetErrorString _ _) = False"
| "failed (Ev_free _) = False"

text \<open>The call by which \<^verbatim>\<open>NVRTC_SAFE_CALL\<close> renders the code of a failed call as text.\<close>

fun renders_diagnostic :: "event \<Rightarrow> bool" where
  "renders_diagnostic (Ev_nvrtcGetErrorString _ _) = True"
| "renders_diagnostic _ = False"

fun is_compile :: "event \<Rightarrow> bool" where
  "is_compile (Ev_nvrtcCompileProgram _ _ _) = True"
| "is_compile _ = False"

fun is_log_size :: "event \<Rightarrow> bool" where
  "is_log_size (Ev_nvrtcGetProgramLogSize _ _ _) = True"
| "is_log_size _ = False"

fun is_log :: "event \<Rightarrow> bool" where
  "is_log (Ev_nvrtcGetProgramLog _ _ _) = True"
| "is_log _ = False"

fun is_free :: "event \<Rightarrow> bool" where
  "is_free (Ev_free _) = True"
| "is_free _ = False"

text \<open>
  No call follows a failed call, the rendering of the diagnostic apart.
\<close>

fun stops_at_failure :: "event list \<Rightarrow> bool" where
  "stops_at_failure [] = True"
| "stops_at_failure (e # es) =
     (if failed e then list_all renders_diagnostic es else stops_at_failure es)"

text \<open>
  The calls of lines 165-182 and nothing else: the size of the log is asked for; if that
  call fails, its diagnostic is rendered and nothing follows; otherwise the log is
  fetched; if that call fails, its diagnostic is rendered and nothing follows; otherwise
  the buffer of the log is freed, one diagnostic is rendered and nothing follows.
\<close>

fun fetches_log :: "event list \<Rightarrow> bool" where
  "fetches_log (a # b # es) =
     (is_log_size a \<and>
      (if failed a then renders_diagnostic b \<and> es = []
       else is_log b \<and>
            (if failed b then list_all renders_diagnostic es \<and> length es = 1
             else (case es of [c, d] \<Rightarrow> is_free c \<and> renders_diagnostic d | _ \<Rightarrow> False))))"
| "fetches_log _ = False"

text \<open>
  No call follows a failed call, the rendering of the diagnostic apart, except that a
  failed \<^verbatim>\<open>nvrtcCompileProgram\<close> is followed by exactly the calls that fetch the log.
\<close>

fun stops_or_dumps_log :: "event list \<Rightarrow> bool" where
  "stops_or_dumps_log [] = True"
| "stops_or_dumps_log (e # es) =
     (if failed e then
        (if is_compile e then fetches_log es else list_all renders_diagnostic es)
      else stops_or_dumps_log es)"

text \<open>The calls that follow the call of \<^verbatim>\<open>nvrtcCompileProgram\<close> in a log.\<close>

fun after_compile :: "event list \<Rightarrow> event list" where
  "after_compile [] = []"
| "after_compile (e # es) = (if is_compile e then es else after_compile es)"

text \<open>The option lists handed to the compiler in a log.\<close>

fun compile_options :: "event list \<Rightarrow> string list list" where
  "compile_options [] = []"
| "compile_options (Ev_nvrtcCompileProgram _ opts _ # es) = opts # compile_options es"
| "compile_options (_ # es) = compile_options es"

text \<open>The functions of the compiler library, and the calls of them in a log, in order.\<close>

datatype nvrtc_fn =
    CreateProgram | CompileProgram | GetProgramLogSize | GetProgramLog
  | GetCUBINSize | GetCUBIN | GetErrorString

fun nvrtc_fn_of :: "event \<Rightarrow> nvrtc_fn option" where
  "nvrtc_fn_of (Ev_nvrtcCreateProgram _ _ _ _) = Some CreateProgram"
| "nvrtc_fn_of (Ev_nvrtcCompileProgram _ _ _) = Some CompileProgram"
| "nvrtc_fn_of (Ev_nvrtcGetProgramLogSize _ _ _) = Some GetProgramLogSize"
| "nvrtc_fn_of (Ev_nvrtcGetProgramLog _ _ _) = Some GetProgramLog"
| "nvrtc_fn_of (Ev_nvrtcGetCUBINSize _ _ _) = Some GetCUBINSize"
| "nvrtc_fn_of (Ev_nvrtcGetCUBIN _ _ _) = Some GetCUBIN"
| "nvrtc_fn_of (Ev_nvrtcGetErrorString _ _) = Some GetErrorString"
| "nvrtc_fn_of _ = None"

fun nvrtc_calls :: "event list \<Rightarrow> nvrtc_fn list" where
  "nvrtc_calls [] = []"
| "nvrtc_calls (e # es) =
     (case nvrtc_fn_of e of None \<Rightarrow> nvrtc_calls es | Some f \<Rightarrow> f # nvrtc_calls es)"

definition compile_sequence :: "nvrtc_fn list" where
  "compile_sequence =
     [CreateProgram, CompileProgram, GetProgramLogSize, GetProgramLog, GetCUBINSize, GetCUBIN]"

definition starts :: "'a list \<Rightarrow> 'a list \<Rightarrow> bool" where
  "starts xs ys = (take (length xs) ys = xs)"

definition without_diagnostic :: "nvrtc_fn list \<Rightarrow> nvrtc_fn list" where
  "without_diagnostic cs = (if cs \<noteq> [] \<and> last cs = GetErrorString then butlast cs else cs)"

text \<open>
  Lines 143-152: the text that the formatting call leaves in the buffer of the second
  option, for the directory \<open>dir\<close> of the header.
\<close>

definition include_path_option :: "'w ext \<Rightarrow> string \<Rightarrow> string option" where
  "include_path_option E dir =
     (let compileOptions = ''--include-path='' @ dir
      in formatted_text E (length compileOptions + 1) (length compileOptions) compileOptions)"

text \<open>What lines 174-178 print for the log buffer.\<close>

definition log_output :: "string \<Rightarrow> string list" where
  "log_output logText =
     (if strlen logText \<ge> 2 then
        [NL # '' compilation log ---'' @ [NL], c_str logText, NL # '' end log ---'' @ [NL]]
      else [])"

subsection \<open>Weakest preconditions\<close>

definition wp :: "('w, 'a) prog \<Rightarrow> ('a result \<Rightarrow> 'w state \<Rightarrow> bool) \<Rightarrow> 'w state \<Rightarrow> bool" where
  "wp m Q s = (case m s of (r, s') \<Rightarrow> Q r s')"

definition lift_post ::
  "('a \<Rightarrow> 'w state \<Rightarrow> bool) \<Rightarrow> ('b result \<Rightarrow> 'w state \<Rightarrow> bool) \<Rightarrow> 'a result \<Rightarrow> 'w state \<Rightarrow> bool" where
  "lift_post K Q r s =
     (case r of
        Ret x \<Rightarrow> K x s
      | Exited c \<Rightarrow> Q (Exited c) s
      | Terminated \<Rightarrow> Q Terminated s
      | Undefined \<Rightarrow> Q Undefined s)"

subsection \<open>A sample environment\<close>

text \<open>
  One GPU of compute capability 8.6; the only file is \<open>k.cu\<close>, a regular file of 21
  bytes; the allocator serves requests below 4096 bytes; the header is found in the
  directory of the executable; the compiler answers \<open>cres\<close> to the compilation and
  leaves the log \<open>log\<close>. The world is the number of calls answered so far.
\<close>

definition dirname :: "string \<Rightarrow> string" where
  "dirname e = rev (dropWhile (\<lambda>c. c \<noteq> CHR ''/'') (rev e))"

definition sample_ext :: "bool \<Rightarrow> nvrtcResult \<Rightarrow> string \<Rightarrow> nat ext" where
  "sample_ext win cres log =
     \<lparr> windows = win,
       allocatable = (\<lambda>n w. n < 4096),
       ifstream_open = (\<lambda>name w.
          if name = ''k.cu'' then Some \<lparr>end_pos = 21, bytes = ''__global__ void k(){}''\<rparr> else None),
       select_device = (\<lambda>argc argv w. (Inr 0, Suc w)),
       driver_error_text = (\<lambda>c. ''invalid image''),
       sdkFindFilePath = (\<lambda>name exe w. (map_option (\<lambda>e. dirname e @ name) exe, Suc w)),
       cuDeviceGetAttribute = (\<lambda>a d w.
          ((0, if a = CU_DEVICE_ATTRIBUTE_COMPUTE_CAPABILITY_MAJOR then 8 else 6), Suc w)),
       cuDeviceGetName = (\<lambda>n d w. ((0, ''GPU''), Suc w)),
       cuInit = (\<lambda>f w. (0, Suc w)),
       cuCtxCreate = (\<lambda>f d w. ((0, 1), Suc w)),
       cuModuleLoadData = (\<lambda>img w. ((if img = ''CUBIN'' then 0 else 200, 7), Suc w)),
       nvrtcCreateProgram = (\<lambda>src name w. ((0, 1), Suc w)),
       nvrtcCompileProgram = (\<lambda>p opts w. (cres, Suc w)),
       nvrtcGetProgramLogSize = (\<lambda>p w. ((0, Suc (length log)), Suc w)),
       nvrtcGetProgramLog = (\<lambda>p w. ((0, log @ [NUL]), Suc w)),
       nvrtcGetCUBINSize = (\<lambda>p w. ((0, 5), Suc w)),
       nvrtcGetCUBIN = (\<lambda>p w. ((0, ''CUBIN''), Suc w)),
       nvrtcGetErrorString = (\<lambda>r w. (''NVRTC_ERROR_COMPILATION'', Suc w)) \<rparr>"

definition sample_compile ::
  "bool \<Rightarrow> nvrtcResult \<Rightarrow> string \<Rightarrow> string list \<Rightarrow> int \<Rightarrow> (nat, unit) prog" where
  "sample_compile win cres log argv requiresCGheaders =
     compileFileToCUBIN (sample_ext win cres log) (Some ''k.cu'') 1 argv requiresCGheaders"

definition sample_state :: "nat state" where
  "sample_state =
     \<lparr> world = 0, trace = [], cerr = [], cout = [], heap = (\<lambda>_. None), brk = 0,
       cubinResult = 0, cubinResultSize = 0 \<rparr>"

text \<open>
  The same environment, except that every file opens as a stream with the end position
  \<open>e\<close> that delivers the bytes \<open>bs\<close>.
\<close>

definition sample_stream :: "int \<Rightarrow> string \<Rightarrow> nat ext" where
  "sample_stream e bs =
     (sample_ext False 0 [])\<lparr>ifstream_open := (\<lambda>name w. Some \<lparr>end_pos = e, bytes = bs\<rparr>)\<rparr>"

text \<open>
  The environment of a failing compilation, except that the log is said to have 5000
  bytes, more than the allocator serves.
\<close>

definition sample_big_log :: "nat ext" where
  "sample_big_log =
     (sample_ext False 6 ''e1'')\<lparr>nvrtcGetProgramLogSize := (\<lambda>p w. ((0, 5000), Suc w))\<rparr>"

text \<open>A state in which the block at address 4 holds a binary image.\<close>

definition sample_loaded :: "string \<Rightarrow> nat state" where
  "sample_loaded img = sample_state\<lparr>heap := (\<lambda>_. None)(4 \<mapsto> img), brk := 5\<rparr>"

section \<open>Formatting lemmas\<close>

lemma dec_nat_digit: "n < 10 \<Longrightarrow> dec_nat n = [''0123456789'' ! n]"
  by (simp add: dec_nat.simps)

lemma formatted_text_windows:
  "windows E \<Longrightarrow> formatted_text E a b f = sprintf_s a f"
  by (simp add: formatted_text_def)

lemma formatted_text_posix:
  "\<not> windows E \<Longrightarrow> formatted_text E a b f = Some (snprintf b f)"
  by (simp add: formatted_text_def)

lemma sprintf_s_eq_Some: "(sprintf_s n f = Some str) = (length f < n \<and> str = f)"
  by (auto simp add: sprintf_s_def)

lemma sprintf_s_eq_None: "(sprintf_s n f = None) = (\<not> length f < n)"
  by (simp add: sprintf_s_def)

section \<open>Symbolic execution\<close>

lemma lift_post_simps [simp]:
  "lift_post K Q (Ret x) s = K x s"
  "lift_post K Q (Exited c) s = Q (Exited c) s"
  "lift_post K Q Terminated s = Q Terminated s"
  "lift_post K Q Undefined s = Q Undefined s"
  by (simp_all add: lift_post_def)

lemma wp_bind [simp]: "wp (bind m f) Q s = wp m (lift_post (\<lambda>x. wp (f x) Q) Q) s"
  by (auto simp: wp_def bind_def lift_post_def split: prod.splits result.splits)

lemma wp_return [simp]: "wp (return x) Q s = Q (Ret x) s"
  by (simp add: wp_def return_def)

lemma wp_exit_process [simp]: "wp (exit_process c) Q s = Q (Exited c) s"
  by (simp add: wp_def exit_process_def)

lemma wp_terminate [simp]: "wp terminate Q s = Q Terminated s"
  by (simp add: wp_def terminate_def)

lemma wp_put_cerr [simp]: "wp (put_cerr xs) Q s = Q (Ret ()) (s\<lparr>cerr := cerr s @ xs\<rparr>)"
  by (simp add: wp_def put_cerr_def)

lemma wp_put_cout [simp]: "wp (put_cout xs) Q s = Q (Ret ()) (s\<lparr>cout := cout s @ xs\<rparr>)"
  by (simp add: wp_def put_cout_def)

lemma wp_extcall [simp]:
  "wp (extcall f ev) Q s =
     (\<forall>r w'. f (world s) = (r, w') \<longrightarrow>
        Q (Ret r) (s\<lparr>world := w', trace := trace s @ [ev r]\<rparr>))"
  by (auto simp add: wp_def extcall_def split: prod.splits)

lemma wp_open_file [simp]:
  "wp (open_file E f) Q s =
     Q (Ret (ifstream_open E f (world s)))
       (s\<lparr>trace := trace s @ [Ev_ifstream_open f (is_open (ifstream_open E f (world s)))]\<rparr>)"
  by (simp add: wp_def open_file_def Let_def)

lemma wp_undefined_behaviour [simp]: "wp undefined_behaviour Q s = Q Undefined s"
  by (simp add: wp_def undefined_behaviour_def)

lemma wp_operator_new [simp]:
  "wp (operator_new E n) Q s =
     ((allocatable E n (world s) \<longrightarrow>
         Q (Ret (brk s)) (s\<lparr>heap := (heap s)(brk s := None), brk := Suc (brk s)\<rparr>)) \<and>
      (\<not> allocatable E n (world s) \<longrightarrow> Q Terminated s))"
  by (simp add: wp_def operator_new_def)

lemma wp_malloc [simp]:
  "wp (malloc E n) Q s =
     ((allocatable E n (world s) \<longrightarrow>
         Q (Ret (Some (brk s))) (s\<lparr>heap := (heap s)(brk s := None), brk := Suc (brk s)\<rparr>)) \<and>
      (\<not> allocatable E n (world s) \<longrightarrow> Q (Ret None) s))"
  by (simp add: wp_def malloc_def)

text \<open>
  The pointer is always the result of the \<open>malloc\<close> right before: the rules keep the
  case distinction, which that result decides.
\<close>

lemma wp_nonnull [simp]:
  "wp (nonnull ptr) Q s = (case ptr of None \<Rightarrow> Q Undefined s | Some p \<Rightarrow> Q (Ret p) s)"
  by (simp add: nonnull_def wp_def undefined_behaviour_def return_def split: option.splits)

lemma wp_store_block [simp]:
  "wp (store_block p c) Q s = Q (Ret ()) (s\<lparr>heap := (heap s)(p \<mapsto> c)\<rparr>)"
  by (simp add: wp_def store_block_def)

lemma wp_store_terminated [simp]:
  "wp (store_terminated p cap n got) Q s =
     ((n < cap \<longrightarrow> Q (Ret ()) (s\<lparr>heap := (heap s)(p := terminated_buffer n got)\<rparr>)) \<and>
      (\<not> n < cap \<longrightarrow> Q Undefined s))"
  by (simp add: wp_def store_terminated_def)

lemma terminated_buffer_eq_None [simp]:
  "(terminated_buffer n got = None) = (length got \<noteq> n)"
  by (simp add: terminated_buffer_def)

lemma terminated_buffer_eq_Some [simp]:
  "(terminated_buffer n got = Some b) = (length got = n \<and> b = got @ [NUL])"
  by (auto simp add: terminated_buffer_def)

lemma wp_free [simp]:
  "wp (free p) Q s =
     ((heap s p = None \<longrightarrow> Q Undefined s) \<and>
      (\<forall>b. heap s p = Some b \<longrightarrow>
         Q (Ret ()) (s\<lparr>heap := (heap s)(p := None), trace := trace s @ [Ev_free p]\<rparr>)))"
  by (simp add: wp_def free_def split: option.splits)

lemma wp_load_block [simp]:
  "wp (load_block p) Q s =
     ((heap s p = None \<longrightarrow> Q Undefined s) \<and> (\<forall>b. heap s p = Some b \<longrightarrow> Q (Ret b) s))"
  by (simp add: wp_def load_block_def split: option.splits)

lemma wp_set_cubinResult [simp]:
  "wp (set_cubinResult p) Q s = Q (Ret ()) (s\<lparr>cubinResult := p\<rparr>)"
  by (simp add: wp_def set_cubinResult_def)

lemma wp_set_cubinResultSize [simp]:
  "wp (set_cubinResultSize n) Q s = Q (Ret ()) (s\<lparr>cubinResultSize := n\<rparr>)"
  by (simp add: wp_def set_cubinResultSize_def)

lemma wp_if [simp]:
  "wp (if b then m1 else m2) Q s = ((b \<longrightarrow> wp m1 Q s) \<and> (\<not> b \<longrightarrow> wp m2 Q s))"
  by simp

lemma wp_case_option [simp]:
  "wp (case x of None \<Rightarrow> m1 | Some y \<Rightarrow> m2 y) Q s =
     ((x = None \<longrightarrow> wp m1 Q s) \<and> (\<forall>y. x = Some y \<longrightarrow> wp (m2 y) Q s))"
  by (simp split: option.splits)

lemma wp_case_prod [simp]:
  "wp (case x of (a, b) \<Rightarrow> m a b) Q s = (\<forall>a b. x = (a, b) \<longrightarrow> wp (m a b) Q s)"
  by (simp split: prod.splits)

lemma dump_log [simp]:
  "(if strlen t \<ge> 2 then
      put_cerr [NL # '' compilation log ---'' @ [NL], c_str t, NL # '' end log ---'' @ [NL]]
    else return ()) = put_cerr (log_output t)"
  by (auto simp: put_cerr_def return_def log_output_def fun_eq_iff)

lemma wp_format_buf [simp]:
  "wp (format_buf E a b f) Q s =
     ((formatted_text E a b f = None \<longrightarrow> Q Terminated s) \<and>
      (\<forall>str. formatted_text E a b f = Some str \<longrightarrow> Q (Ret str) s))"
  by (simp add: format_buf_def split: option.splits)

lemma wp_format_into [simp]:
  "wp (format_into E ptr a b f) Q s =
     (case ptr of
        None \<Rightarrow> (windows E \<longrightarrow> Q Terminated s) \<and> (\<not> windows E \<longrightarrow> Q Undefined s)
      | Some p \<Rightarrow>
         (formatted_text E a b f = None \<longrightarrow> Q Terminated s) \<and>
         (\<forall>str. formatted_text E a b f = Some str \<longrightarrow>
            Q (Ret p) (s\<lparr>heap := (heap s)(p \<mapsto> str)\<rparr>)))"
  by (simp add: format_into_def split: option.splits)

lemma wp_NVRTC_SAFE_CALL [simp]:
  "wp (NVRTC_SAFE_CALL E Name result) Q s =
     ((result \<noteq> NVRTC_SUCCESS \<longrightarrow>
        (\<forall>msg w'. nvrtcGetErrorString E result (world s) = (msg, w') \<longrightarrow>
           Q (Exited 1)
             (s\<lparr>world := w', trace := trace s @ [Ev_nvrtcGetErrorString result msg],
                cerr := cerr s @ diagnostic Name msg\<rparr>))) \<and>
      (result = NVRTC_SUCCESS \<longrightarrow> Q (Ret ()) s))"
  by (simp add: NVRTC_SAFE_CALL_def)

lemma wp_checkCudaErrors [simp]:
  "wp (checkCudaErrors E err) Q s =
     ((err \<noteq> CUDA_SUCCESS \<longrightarrow>
         Q (Exited EXIT_FAILURE)
           (s\<lparr>cerr := cerr s @ driver_diagnostic (driver_error_text E err)\<rparr>)) \<and>
      (err = CUDA_SUCCESS \<longrightarrow> Q (Ret ()) s))"
  by (simp add: checkCudaErrors_def)

lemma wp_findCudaDeviceDRV [simp]:
  "wp (findCudaDeviceDRV E argc argv) Q s =
     ((\<forall>msg w'. select_device E argc argv (world s) = (Inl msg, w') \<longrightarrow>
         Q (Exited EXIT_FAILURE)
           (s\<lparr>world := w', trace := trace s @ [Ev_findCudaDeviceDRV (Inl msg)],
              cerr := cerr s @ driver_diagnostic msg\<rparr>)) \<and>
      (\<forall>dev w'. select_device E argc argv (world s) = (Inr dev, w') \<longrightarrow>
         Q (Ret dev) (s\<lparr>world := w', trace := trace s @ [Ev_findCudaDeviceDRV (Inr dev)]\<rparr>)))"
  by (auto simp add: findCudaDeviceDRV_def split: sum.splits)

lemma wp_run: "wp m Q s \<longleftrightarrow> Q (outcome m s) (final m s)"
  by (simp add: wp_def outcome_def final_def split: prod.splits)

lemma wp_determines: "(\<And>Q. wp m1 Q s = wp m2 Q s) \<Longrightarrow> m1 s = m2 s"
proof -
  assume eq: "\<And>Q. wp m1 Q s = wp m2 Q s"
  have "wp m1 (\<lambda>r s'. (r, s') = m1 s) s"
    by (simp add: wp_def split: prod.splits)
  with eq have "wp m2 (\<lambda>r s'. (r, s') = m1 s) s"
    by simp
  then show ?thesis
    by (simp add: wp_def split: prod.splits)
qed

section \<open>Runs in the sample environment\<close>

lemmas sample_defs =
  sample_compile_def sample_ext_def sample_state_def formatted_text_def snprintf_def
  sprintf_s_def dirname_def argv0_def fmt_d_def dec_nat_digit NVRTC_SUCCESS_def CUDA_SUCCESS_def
  EXIT_FAILURE_def log_output_def strlen_def c_str_def NUL_def NL_def diagnostic_def
  driver_diagnostic_def size_t_def tellg_def seekg_def stream_read_def

text \<open>A compilation that succeeds, with the include path, on a non-Windows build.\<close>

lemma sample_compile_ok:
  "outcome (sample_compile False 0 [] [''/a/x''] 1) sample_state = Ret () \<and>
   events_of (sample_compile False 0 [] [''/a/x''] 1) sample_state =
     [Ev_ifstream_open ''k.cu'' True,
      Ev_findCudaDeviceDRV (Inr 0),
      Ev_cuDeviceGetAttribute CU_DEVICE_ATTRIBUTE_COMPUTE_CAPABILITY_MAJOR 0 0 8,
      Ev_cuDeviceGetAttribute CU_DEVICE_ATTRIBUTE_COMPUTE_CAPABILITY_MINOR 0 0 6,
      Ev_sdkFindFilePath ''cooperative_groups.h'' (Some ''/a/x'') (Some ''/a/cooperative_groups.h''),
      Ev_nvrtcCreateProgram (''__global__ void k(){}'' @ [CHR 0x00]) ''k.cu'' 0 1,
      Ev_nvrtcCompileProgram 1 [''--gpu-architecture=sm_86'', ''--include-path=/a''] 0,
      Ev_nvrtcGetProgramLogSize 1 0 1,
      Ev_nvrtcGetProgramLog 1 0 [CHR 0x00],
      Ev_free 3,
      Ev_nvrtcGetCUBINSize 1 0 5,
      Ev_nvrtcGetCUBIN 1 0 ''CUBIN'',
      Ev_free 1, Ev_free 2] \<and>
   printed_err (sample_compile False 0 [] [''/a/x''] 1) sample_state = [] \<and>
   cubinResult (final (sample_compile False 0 [] [''/a/x''] 1) sample_state) = 4 \<and>
   cubinResultSize (final (sample_compile False 0 [] [''/a/x''] 1) sample_state) = 5 \<and>
   heap (final (sample_compile False 0 [] [''/a/x''] 1) sample_state) 4 = Some ''CUBIN''"
proof -
  have "wp (sample_compile False 0 [] [''/a/x''] 1)
     (\<lambda>r s'. r = Ret () \<and>
        trace s' =
          [Ev_ifstream_open ''k.cu'' True,
           Ev_findCudaDeviceDRV (Inr 0),
           Ev_cuDeviceGetAttribute CU_DEVICE_ATTRIBUTE_COMPUTE_CAPABILITY_MAJOR 0 0 8,
           Ev_cuDeviceGetAttribute CU_DEVICE_ATTRIBUTE_COMPUTE_CAPABILITY_MINOR 0 0 6,
           Ev_sdkFindFilePath ''cooperative_groups.h'' (Some ''/a/x'')
             (Some ''/a/cooperative_groups.h''),
           Ev_nvrtcCreateProgram (''__global__ void k(){}'' @ [CHR 0x00]) ''k.cu'' 0 1,
           Ev_nvrtcCompileProgram 1 [''--gpu-architecture=sm_86'', ''--include-path=/a''] 0,
           Ev_nvrtcGetProgramLogSize 1 0 1,
           Ev_nvrtcGetProgramLog 1 0 [CHR 0x00],
           Ev_free 3,
           Ev_nvrtcGetCUBINSize 1 0 5,
           Ev_nvrtcGetCUBIN 1 0 ''CUBIN'',
           Ev_free 1, Ev_free 2] \<and>
        cerr s' = [] \<and> cubinResult s' = 4 \<and> cubinResultSize s' = 5 \<and>
        heap s' 4 = Some ''CUBIN'')
     sample_state"
    unfolding compileFileToCUBIN_def sample_compile_def
    by (simp add: Let_def sample_defs del: wp_case_option)
  then show ?thesis
    by (simp add: wp_run events_of_def printed_err_def sample_state_def)
qed

text \<open>A compilation that fails, with the log \<open>e1\<close>, without the include path.\<close>

lemma sample_compile_fails:
  "outcome (sample_compile False 6 ''e1'' [''/a/x''] 0) sample_state = Exited 1 \<and>
   events_of (sample_compile False 6 ''e1'' [''/a/x''] 0) sample_state =
     [Ev_ifstream_open ''k.cu'' True,
      Ev_findCudaDeviceDRV (Inr 0),
      Ev_cuDeviceGetAttribute CU_DEVICE_ATTRIBUTE_COMPUTE_CAPABILITY_MAJOR 0 0 8,
      Ev_cuDeviceGetAttribute CU_DEVICE_ATTRIBUTE_COMPUTE_CAPABILITY_MINOR 0 0 6,
      Ev_nvrtcCreateProgram (''__global__ void k(){}'' @ [CHR 0x00]) ''k.cu'' 0 1,
      Ev_nvrtcCompileProgram 1 [''--gpu-architecture=sm_86''] 6,
      Ev_nvrtcGetProgramLogSize 1 0 3,
      Ev_nvrtcGetProgramLog 1 0 (''e1'' @ [CHR 0x00]),
      Ev_free 2,
      Ev_nvrtcGetErrorString 6 ''NVRTC_ERROR_COMPILATION''] \<and>
   printed_err (sample_compile False 6 ''e1'' [''/a/x''] 0) sample_state =
     [CHR 0x0A # '' compilation log ---'' @ [CHR 0x0A], ''e1'',
      CHR 0x0A # '' end log ---'' @ [CHR 0x0A],
      CHR 0x0A # ''error: '', ''nvrtcCompileProgram'', '' failed with error '',
      ''NVRTC_ERROR_COMPILATION'']"
proof -
  have "wp (sample_compile False 6 ''e1'' [''/a/x''] 0)
     (\<lambda>r s'. r = Exited 1 \<and>
        trace s' =
          [Ev_ifstream_open ''k.cu'' True,
           Ev_findCudaDeviceDRV (Inr 0),
           Ev_cuDeviceGetAttribute CU_DEVICE_ATTRIBUTE_COMPUTE_CAPABILITY_MAJOR 0 0 8,
           Ev_cuDeviceGetAttribute CU_DEVICE_ATTRIBUTE_COMPUTE_CAPABILITY_MINOR 0 0 6,
           Ev_nvrtcCreateProgram (''__global__ void k(){}'' @ [CHR 0x00]) ''k.cu'' 0 1,
           Ev_nvrtcCompileProgram 1 [''--gpu-architecture=sm_86''] 6,
           Ev_nvrtcGetProgramLogSize 1 0 3,
           Ev_nvrtcGetProgramLog 1 0 (''e1'' @ [CHR 0x00]),
           Ev_free 2,
           Ev_nvrtcGetErrorString 6 ''NVRTC_ERROR_COMPILATION''] \<and>
        cerr s' =
          [CHR 0x0A # '' compilation log ---'' @ [CHR 0x0A], ''e1'',
           CHR 0x0A # '' end log ---'' @ [CHR 0x0A],
           CHR 0x0A # ''error: '', ''nvrtcCompileProgram'', '' failed with error '',
           ''NVRTC_ERROR_COMPILATION''])
     sample_state"
    unfolding compileFileToCUBIN_def sample_compile_def
    by (simp add: Let_def sample_defs del: wp_case_option)
  then show ?thesis
    by (simp add: wp_run events_of_def printed_err_def sample_state_def)
qed

text \<open>The same compilation started from another directory.\<close>

lemma sample_compile_other_dir:
  "compile_options (events_of (sample_compile False 0 [] [''/b/x''] 1) sample_state) =
     [[''--gpu-architecture=sm_86'', ''--include-path=/b'']]"
proof -
  have "wp (sample_compile False 0 [] [''/b/x''] 1)
     (\<lambda>r s'. compile_options (trace s') =
        [[''--gpu-architecture=sm_86'', ''--include-path=/b'']])
     sample_state"
    unfolding compileFileToCUBIN_def sample_compile_def
    by (simp add: Let_def sample_defs del: wp_case_option)
  then show ?thesis
    by (simp add: wp_run events_of_def sample_state_def)
qed

text \<open>Loading the binary of the sample compilation, and loading a block that is no binary.\<close>

lemma sample_load_ok:
  "outcome (loadCUBIN (sample_ext False 0 []) 4 1 [''/a/x'']) (sample_loaded ''CUBIN'') = Ret 7 \<and>
   events_of (loadCUBIN (sample_ext False 0 []) 4 1 [''/a/x'']) (sample_loaded ''CUBIN'') =
     [Ev_findCudaDeviceDRV (Inr 0),
      Ev_cuDeviceGetAttribute CU_DEVICE_ATTRIBUTE_COMPUTE_CAPABILITY_MAJOR 0 0 8,
      Ev_cuDeviceGetAttribute CU_DEVICE_ATTRIBUTE_COMPUTE_CAPABILITY_MINOR 0 0 6,
      Ev_cuDeviceGetName 256 0 0 ''GPU'',
      Ev_cuInit 0 0,
      Ev_cuCtxCreate 0 0 0 1,
      Ev_cuModuleLoadData ''CUBIN'' 0 7,
      Ev_free 4] \<and>
   printed_out (loadCUBIN (sample_ext False 0 []) 4 1 [''/a/x'']) (sample_loaded ''CUBIN'') =
     [''> GPU Device has SM 8.6 compute capability'' @ [CHR 0x0A]] \<and>
   heap (final (loadCUBIN (sample_ext False 0 []) 4 1 [''/a/x'']) (sample_loaded ''CUBIN'')) 4 = None"
proof -
  have "wp (loadCUBIN (sample_ext False 0 []) 4 1 [''/a/x''])
     (\<lambda>r s'. r = Ret 7 \<and>
        trace s' =
          [Ev_findCudaDeviceDRV (Inr 0),
           Ev_cuDeviceGetAttribute CU_DEVICE_ATTRIBUTE_COMPUTE_CAPABILITY_MAJOR 0 0 8,
           Ev_cuDeviceGetAttribute CU_DEVICE_ATTRIBUTE_COMPUTE_CAPABILITY_MINOR 0 0 6,
           Ev_cuDeviceGetName 256 0 0 ''GPU'',
           Ev_cuInit 0 0,
           Ev_cuCtxCreate 0 0 0 1,
           Ev_cuModuleLoadData ''CUBIN'' 0 7,
           Ev_free 4] \<and>
        cout s' = [''> GPU Device has SM 8.6 compute capability'' @ [CHR 0x0A]] \<and>
        heap s' 4 = None)
     (sample_loaded ''CUBIN'')"
    unfolding loadCUBIN_def
    by (simp add: Let_def sample_defs sample_loaded_def)
  then show ?thesis
    by (simp add: wp_run events_of_def printed_out_def sample_state_def sample_loaded_def)
qed

lemma sample_load_fails:
  "outcome (loadCUBIN (sample_ext False 0 []) 4 1 [''/a/x'']) (sample_loaded ''JUNK'') = Exited 1 \<and>
   events_of (loadCUBIN (sample_ext False 0 []) 4 1 [''/a/x'']) (sample_loaded ''JUNK'') =
     [Ev_findCudaDeviceDRV (Inr 0),
      Ev_cuDeviceGetAttribute CU_DEVICE_ATTRIBUTE_COMPUTE_CAPABILITY_MAJOR 0 0 8,
      Ev_cuDeviceGetAttribute CU_DEVICE_ATTRIBUTE_COMPUTE_CAPABILITY_MINOR 0 0 6,
      Ev_cuDeviceGetName 256 0 0 ''GPU'',
      Ev_cuInit 0 0,
      Ev_cuCtxCreate 0 0 0 1,
      Ev_cuModuleLoadData ''JUNK'' 200 7] \<and>
   printed_err (loadCUBIN (sample_ext False 0 []) 4 1 [''/a/x'']) (sample_loaded ''JUNK'') =
     [''CUDA driver error: '', ''invalid image'']"
proof -
  have "wp (loadCUBIN (sample_ext False 0 []) 4 1 [''/a/x''])
     (\<lambda>r s'. r = Exited 1 \<and>
        trace s' =
          [Ev_findCudaDeviceDRV (Inr 0),
           Ev_cuDeviceGetAttribute CU_DEVICE_ATTRIBUTE_COMPUTE_CAPABILITY_MAJOR 0 0 8,
           Ev_cuDeviceGetAttribute CU_DEVICE_ATTRIBUTE_COMPUTE_CAPABILITY_MINOR 0 0 6,
           Ev_cuDeviceGetName 256 0 0 ''GPU'',
           Ev_cuInit 0 0,
           Ev_cuCtxCreate 0 0 0 1,
           Ev_cuModuleLoadData ''JUNK'' 200 7] \<and>
        cerr s' = [''CUDA driver error: '', ''invalid image''])
     (sample_loaded ''JUNK'')"
    unfolding loadCUBIN_def
    by (simp add: Let_def sample_defs sample_loaded_def)
  then show ?thesis
    by (simp add: wp_run events_of_def printed_err_def sample_state_def sample_loaded_def)
qed

text \<open>
  Streams that are no regular files. A directory opens, reports the largest position as
  its end and delivers no byte: the allocation of the buffer fails. A stream in a failed
  state reports the position \<open>-1\<close>: the size wraps around to \<open>2 ^ 64 - 1\<close>, the block
  has no byte, and the terminator is written outside it.
\<close>

lemma sample_directory:
  "outcome (compileFileToCUBIN (sample_stream (2 ^ 63 - 1) []) (Some ''d'') 1 [''/a/x''] 0)
     sample_state = Terminated \<and>
   events_of (compileFileToCUBIN (sample_stream (2 ^ 63 - 1) []) (Some ''d'') 1 [''/a/x''] 0)
     sample_state = [Ev_ifstream_open ''d'' True] \<and>
   printed_err (compileFileToCUBIN (sample_stream (2 ^ 63 - 1) []) (Some ''d'') 1 [''/a/x''] 0)
     sample_state = []"
proof -
  have "wp (compileFileToCUBIN (sample_stream (2 ^ 63 - 1) []) (Some ''d'') 1 [''/a/x''] 0)
     (\<lambda>r s'. r = Terminated \<and> trace s' = [Ev_ifstream_open ''d'' True] \<and> cerr s' = [])
     sample_state"
    unfolding compileFileToCUBIN_def
    by (simp add: Let_def sample_defs sample_stream_def del: wp_case_option)
  then show ?thesis
    by (simp add: wp_run events_of_def printed_err_def sample_state_def)
qed

lemma sample_failed_stream:
  "outcome (compileFileToCUBIN (sample_stream (- 1) []) (Some ''d'') 1 [''/a/x''] 0)
     sample_state = Undefined \<and>
   events_of (compileFileToCUBIN (sample_stream (- 1) []) (Some ''d'') 1 [''/a/x''] 0)
     sample_state = [Ev_ifstream_open ''d'' True]"
proof -
  have "wp (compileFileToCUBIN (sample_stream (- 1) []) (Some ''d'') 1 [''/a/x''] 0)
     (\<lambda>r s'. r = Undefined \<and> trace s' = [Ev_ifstream_open ''d'' True])
     sample_state"
    unfolding compileFileToCUBIN_def
    by (simp add: Let_def sample_defs sample_stream_def del: wp_case_option)
  then show ?thesis
    by (simp add: wp_run events_of_def sample_state_def)
qed

text \<open>
  A stream that ends before the end position it reported: the buffer would be handed to
  the compiler with bytes that were never written.
\<close>

lemma sample_short_read:
  "outcome (compileFileToCUBIN (sample_stream 5 ''abc'') (Some ''d'') 1 [''/a/x''] 0)
     sample_state = Undefined \<and>
   nvrtc_calls (events_of (compileFileToCUBIN (sample_stream 5 ''abc'') (Some ''d'') 1 [''/a/x''] 0)
     sample_state) = []"
proof -
  have "wp (compileFileToCUBIN (sample_stream 5 ''abc'') (Some ''d'') 1 [''/a/x''] 0)
     (\<lambda>r s'. r = Undefined \<and> nvrtc_calls (trace s') = [])
     sample_state"
    unfolding compileFileToCUBIN_def
    by (simp add: Let_def sample_defs sample_stream_def del: wp_case_option)
  then show ?thesis
    by (simp add: wp_run events_of_def sample_state_def)
qed

text \<open>
  A failed compilation after which \<^verbatim>\<open>malloc\<close> returns a null pointer for the log buffer:
  the library is handed the null pointer.
\<close>

lemma sample_log_buffer_null:
  "outcome (compileFileToCUBIN sample_big_log (Some ''k.cu'') 1 [''/a/x''] 0) sample_state
     = Undefined \<and>
   after_compile (events_of (compileFileToCUBIN sample_big_log (Some ''k.cu'') 1 [''/a/x''] 0)
     sample_state) = [Ev_nvrtcGetProgramLogSize 1 0 5000]"
proof -
  have "wp (compileFileToCUBIN sample_big_log (Some ''k.cu'') 1 [''/a/x''] 0)
     (\<lambda>r s'. r = Undefined \<and> after_compile (trace s') = [Ev_nvrtcGetProgramLogSize 1 0 5000])
     sample_state"
    unfolding compileFileToCUBIN_def
    by (simp add: Let_def sample_defs sample_big_log_def del: wp_case_option)
  then show ?thesis
    by (simp add: wp_run events_of_def sample_state_def)
qed

section \<open>The claims\<close>

text \<open>
  C1, as stated, asks that neither function continues past a failed call. For the
  compilation this fails: the result of \<^verbatim>\<open>nvrtcCompileProgram\<close> is kept in a variable
  (line 162) and checked only at line 182, after the log has been fetched and printed. In
  the sample environment, whose compiler answers the code 6, two calls follow the failed
  one.
\<close>

theorem continues_past_failed_compile:
  "\<not> stops_at_failure
       (events_of (compileFileToCUBIN (sample_ext False 6 ''e1'') (Some ''k.cu'') 1 [''/a/x''] 0)
          sample_state)"
  using sample_compile_fails
  by (simp add: sample_compile_def NVRTC_SUCCESS_def CUDA_SUCCESS_def)

text \<open>
  C1, amended. Whenever the file name is null or a logged call fails (the file cannot be
  opened, no device is selected, the header is not found, a compiler or driver call
  returns a code other than success), the run ends in \<^verbatim>\<open>exit\<close> and has printed at least
  one character of diagnostic; so a run that returns has met no failure. After a failed
  call no further call is made, the rendering of the diagnostic apart, except after a
  failed \<^verbatim>\<open>nvrtcCompileProgram\<close>: then exactly the calls of lines 165-182 follow, which
  ask for the size of the log, fetch the log and free its buffer, each call checked in
  its turn, and the run ends at the check of the stored result at the latest. For
  \<^verbatim>\<open>compileFileToCUBIN\<close> this is said of the runs whose behaviour is defined: when
  \<^verbatim>\<open>malloc\<close> returns a null pointer for the log buffer after a failed compilation, the
  library is handed that pointer (\<open>sample_log_buffer_null\<close>). A failed allocation is not
  one of the failures of the
  claim: a failed \<^verbatim>\<open>new\<close> ends the process by an exception that nothing catches. In
  \<^verbatim>\<open>loadCUBIN\<close> no call at all follows a failed one. The driver part rests on
  \<open>checkCudaErrors\<close> and \<open>findCudaDeviceDRV\<close> as modelled from the spec.
\<close>

theorem failures_terminate_the_process:
  "(outcome (compileFileToCUBIN E filename argc argv requiresCGheaders) s \<noteq> Undefined \<longrightarrow>
      ((filename = None \<or>
        (\<exists>e \<in> set (events_of (compileFileToCUBIN E filename argc argv requiresCGheaders) s). failed e))
       \<longrightarrow>
         is_exit (outcome (compileFileToCUBIN E filename argc argv requiresCGheaders) s) \<and>
         concat (printed_err (compileFileToCUBIN E filename argc argv requiresCGheaders) s @
                 printed_out (compileFileToCUBIN E filename argc argv requiresCGheaders) s) \<noteq> []) \<and>
      stops_or_dumps_log (events_of (compileFileToCUBIN E filename argc argv requiresCGheaders) s)) \<and>
   ((\<exists>e \<in> set (events_of (loadCUBIN E cubin argc argv) s). failed e) \<longrightarrow>
      is_exit (outcome (loadCUBIN E cubin argc argv) s) \<and>
      concat (printed_err (loadCUBIN E cubin argc argv) s) \<noteq> []) \<and>
   stops_at_failure (events_of (loadCUBIN E cubin argc argv) s)"
proof -
  have c: "wp (compileFileToCUBIN E filename argc argv requiresCGheaders)
     (\<lambda>r s'.
        r \<noteq> Undefined \<longrightarrow>
        ((filename = None \<or> (\<exists>e \<in> set (drop (length (trace s)) (trace s')). failed e)) \<longrightarrow>
           is_exit r \<and>
           concat (drop (length (cerr s)) (cerr s') @ drop (length (cout s)) (cout s')) \<noteq> []) \<and>
        stops_or_dumps_log (drop (length (trace s)) (trace s'))) s"
    unfolding compileFileToCUBIN_def
    by (simp add: Let_def diagnostic_def driver_diagnostic_def EXIT_FAILURE_def)
  have l: "wp (loadCUBIN E cubin argc argv)
     (\<lambda>r s'.
        ((\<exists>e \<in> set (drop (length (trace s)) (trace s')). failed e) \<longrightarrow>
           is_exit r \<and> concat (drop (length (cerr s)) (cerr s')) \<noteq> []) \<and>
        stops_at_failure (drop (length (trace s)) (trace s'))) s"
    unfolding loadCUBIN_def
    by (simp add: Let_def driver_diagnostic_def EXIT_FAILURE_def)
  from c [unfolded wp_run] l [unfolded wp_run] show ?thesis
    unfolding events_of_def printed_err_def printed_out_def by blast
qed

theorem failures_terminate_the_process_witness:
  "outcome (compileFileToCUBIN (sample_ext False 6 ''e1'') (Some ''k.cu'') 1 [''/a/x''] 0)
     sample_state \<noteq> Undefined \<and>
   (\<exists>e \<in> set (events_of (compileFileToCUBIN (sample_ext False 6 ''e1'') (Some ''k.cu'') 1 [''/a/x''] 0)
               sample_state). failed e) \<and>
   is_exit (outcome (compileFileToCUBIN (sample_ext False 6 ''e1'') (Some ''k.cu'') 1 [''/a/x''] 0)
              sample_state) \<and>
   concat
     (printed_err (compileFileToCUBIN (sample_ext False 6 ''e1'') (Some ''k.cu'') 1 [''/a/x''] 0)
        sample_state @
      printed_out (compileFileToCUBIN (sample_ext False 6 ''e1'') (Some ''k.cu'') 1 [''/a/x''] 0)
        sample_state) \<noteq> [] \<and>
   stops_or_dumps_log
     (events_of (compileFileToCUBIN (sample_ext False 6 ''e1'') (Some ''k.cu'') 1 [''/a/x''] 0)
        sample_state) \<and>
   (\<exists>e \<in> set (events_of (loadCUBIN (sample_ext False 0 []) 4 1 [''/a/x'']) (sample_loaded ''JUNK'')).
      failed e) \<and>
   is_exit (outcome (loadCUBIN (sample_ext False 0 []) 4 1 [''/a/x'']) (sample_loaded ''JUNK'')) \<and>
   concat (printed_err (loadCUBIN (sample_ext False 0 []) 4 1 [''/a/x'']) (sample_loaded ''JUNK''))
     \<noteq> [] \<and>
   stops_at_failure
     (events_of (loadCUBIN (sample_ext False 0 []) 4 1 [''/a/x'']) (sample_loaded ''JUNK''))"
proof -
  have u: "outcome (compileFileToCUBIN (sample_ext False 6 ''e1'') (Some ''k.cu'') 1 [''/a/x''] 0)
             sample_state \<noteq> Undefined"
    using sample_compile_fails by (simp add: sample_compile_def)
  have a: "\<exists>e \<in> set (events_of (compileFileToCUBIN (sample_ext False 6 ''e1'') (Some ''k.cu'') 1
                [''/a/x''] 0) sample_state). failed e"
    using sample_compile_fails by (simp add: sample_compile_def NVRTC_SUCCESS_def)
  have b: "\<exists>e \<in> set (events_of (loadCUBIN (sample_ext False 0 []) 4 1 [''/a/x''])
                (sample_loaded ''JUNK'')). failed e"
    using sample_load_fails by (simp add: CUDA_SUCCESS_def)
  from u a
    failures_terminate_the_process
      [of "sample_ext False 6 ''e1''" "Some ''k.cu''" 1 "[''/a/x'']" 0 "sample_state"]
  have c: "is_exit (outcome (compileFileToCUBIN (sample_ext False 6 ''e1'') (Some ''k.cu'') 1
                      [''/a/x''] 0) sample_state) \<and>
     concat
       (printed_err (compileFileToCUBIN (sample_ext False 6 ''e1'') (Some ''k.cu'') 1 [''/a/x''] 0)
          sample_state @
        printed_out (compileFileToCUBIN (sample_ext False 6 ''e1'') (Some ''k.cu'') 1 [''/a/x''] 0)
          sample_state) \<noteq> [] \<and>
     stops_or_dumps_log
       (events_of (compileFileToCUBIN (sample_ext False 6 ''e1'') (Some ''k.cu'') 1 [''/a/x''] 0)
          sample_state)"
    by blast
  from b
    failures_terminate_the_process
      [of "sample_ext False 0 []" "Some ''k.cu''" 1 "[''/a/x'']" 0 "sample_loaded ''JUNK''" 4]
  have d: "is_exit (outcome (loadCUBIN (sample_ext False 0 []) 4 1 [''/a/x''])
                      (sample_loaded ''JUNK'')) \<and>
     concat (printed_err (loadCUBIN (sample_ext False 0 []) 4 1 [''/a/x'']) (sample_loaded ''JUNK''))
       \<noteq> [] \<and>
     stops_at_failure
       (events_of (loadCUBIN (sample_ext False 0 []) 4 1 [''/a/x'']) (sample_loaded ''JUNK''))"
    by blast
  from u a b c d show ?thesis
    by blast
qed

text \<open>
  C2. The two output variables are assigned only after program creation, compilation,
  the size query and the fetch of the binary have all succeeded. A run that does not
  return leaves both variables as they were. A run that returns has made the six
  compiler calls, all with \<^verbatim>\<open>NVRTC_SUCCESS\<close> (and no logged call of it failed); then
  \<open>cubinResultSize\<close> is the size that \<^verbatim>\<open>nvrtcGetCUBINSize\<close> reported and \<open>cubinResult\<close>
  points to a live block holding the binary that \<^verbatim>\<open>nvrtcGetCUBIN\<close> stored.
\<close>

theorem outputs_assigned_only_after_success:
  "(outcome (compileFileToCUBIN E filename argc argv requiresCGheaders) s \<noteq> Ret () \<longrightarrow>
      cubinResult (final (compileFileToCUBIN E filename argc argv requiresCGheaders) s) = cubinResult s \<and>
      cubinResultSize (final (compileFileToCUBIN E filename argc argv requiresCGheaders) s)
        = cubinResultSize s) \<and>
   (outcome (compileFileToCUBIN E filename argc argv requiresCGheaders) s = Ret () \<longrightarrow>
      (\<forall>e \<in> set (events_of (compileFileToCUBIN E filename argc argv requiresCGheaders) s). \<not> failed e) \<and>
      (\<exists>src name prog opts logSize log codeSize code.
         filter (\<lambda>e. nvrtc_fn_of e \<noteq> None)
           (events_of (compileFileToCUBIN E filename argc argv requiresCGheaders) s) =
           [Ev_nvrtcCreateProgram src name NVRTC_SUCCESS prog,
            Ev_nvrtcCompileProgram prog opts NVRTC_SUCCESS,
            Ev_nvrtcGetProgramLogSize prog NVRTC_SUCCESS logSize,
            Ev_nvrtcGetProgramLog prog NVRTC_SUCCESS log,
            Ev_nvrtcGetCUBINSize prog NVRTC_SUCCESS codeSize,
            Ev_nvrtcGetCUBIN prog NVRTC_SUCCESS code] \<and>
         cubinResultSize (final (compileFileToCUBIN E filename argc argv requiresCGheaders) s) = codeSize \<and>
         heap (final (compileFileToCUBIN E filename argc argv requiresCGheaders) s)
           (cubinResult (final (compileFileToCUBIN E filename argc argv requiresCGheaders) s))
           = Some (take codeSize code)))"
proof -
  have "wp (compileFileToCUBIN E filename argc argv requiresCGheaders)
     (\<lambda>r s'.
        (r \<noteq> Ret () \<longrightarrow>
           cubinResult s' = cubinResult s \<and> cubinResultSize s' = cubinResultSize s) \<and>
        (r = Ret () \<longrightarrow>
          (\<forall>e \<in> set (drop (length (trace s)) (trace s')). \<not> failed e) \<and>
          (\<exists>src name prog opts logSize log codeSize code.
             filter (\<lambda>e. nvrtc_fn_of e \<noteq> None) (drop (length (trace s)) (trace s')) =
               [Ev_nvrtcCreateProgram src name NVRTC_SUCCESS prog,
                Ev_nvrtcCompileProgram prog opts NVRTC_SUCCESS,
                Ev_nvrtcGetProgramLogSize prog NVRTC_SUCCESS logSize,
                Ev_nvrtcGetProgramLog prog NVRTC_SUCCESS log,
                Ev_nvrtcGetCUBINSize prog NVRTC_SUCCESS codeSize,
                Ev_nvrtcGetCUBIN prog NVRTC_SUCCESS code] \<and>
             cubinResultSize s' = codeSize \<and>
             heap s' (cubinResult s') = Some (take codeSize code)))) s"
    unfolding compileFileToCUBIN_def
    by (simp add: Let_def)
  then show ?thesis
    by (simp add: wp_run events_of_def)
qed

theorem outputs_assigned_only_after_success_witness:
  "outcome (compileFileToCUBIN (sample_ext False 0 []) (Some ''k.cu'') 1 [''/a/x''] 1) sample_state
     = Ret () \<and>
   cubinResultSize (final (compileFileToCUBIN (sample_ext False 0 []) (Some ''k.cu'') 1 [''/a/x''] 1)
     sample_state) = 5 \<and>
   heap (final (compileFileToCUBIN (sample_ext False 0 []) (Some ''k.cu'') 1 [''/a/x''] 1) sample_state)
     (cubinResult (final (compileFileToCUBIN (sample_ext False 0 []) (Some ''k.cu'') 1 [''/a/x''] 1)
        sample_state)) = Some (take 5 ''CUBIN'') \<and>
   outcome (compileFileToCUBIN (sample_ext False 6 ''e1'') (Some ''k.cu'') 1 [''/a/x''] 0) sample_state
     \<noteq> Ret () \<and>
   cubinResult (final (compileFileToCUBIN (sample_ext False 6 ''e1'') (Some ''k.cu'') 1 [''/a/x''] 0)
     sample_state) = cubinResult sample_state \<and>
   cubinResultSize (final (compileFileToCUBIN (sample_ext False 6 ''e1'') (Some ''k.cu'') 1 [''/a/x''] 0)
     sample_state) = cubinResultSize sample_state"
proof -
  have a: "outcome (compileFileToCUBIN (sample_ext False 0 []) (Some ''k.cu'') 1 [''/a/x''] 1)
             sample_state = Ret ()"
    using sample_compile_ok by (simp add: sample_compile_def)
  have b: "outcome (compileFileToCUBIN (sample_ext False 6 ''e1'') (Some ''k.cu'') 1 [''/a/x''] 0)
             sample_state \<noteq> Ret ()"
    using sample_compile_fails by (simp add: sample_compile_def)
  from a b sample_compile_ok
    outputs_assigned_only_after_success
      [of "sample_ext False 0 []" "Some ''k.cu''" 1 "[''/a/x'']" 1 sample_state]
    outputs_assigned_only_after_success
      [of "sample_ext False 6 ''e1''" "Some ''k.cu''" 1 "[''/a/x'']" 0 sample_state]
  show ?thesis
    by (simp add: sample_compile_def)
qed

text \<open>
  C3. Whenever the compiler is invoked, its first option is \<open>--gpu-architecture=sm_\<close>
  followed by the \<^verbatim>\<open>%d\<close> renderings of the major and then the minor compute capability
  that the driver reported for the selected device. The buffer has room for the prefix
  and nine more characters, which every pair of one- or two-digit numbers fits; the
  last hypothesis says that the two renderings fit.
\<close>

theorem architecture_option_from_selected_device:
  assumes "evs = events_of (compileFileToCUBIN E filename argc argv requiresCGheaders) s"
    and "Ev_findCudaDeviceDRV (Inr dev) \<in> set evs"
    and "Ev_cuDeviceGetAttribute CU_DEVICE_ATTRIBUTE_COMPUTE_CAPABILITY_MAJOR d1 r1 major \<in> set evs"
    and "Ev_cuDeviceGetAttribute CU_DEVICE_ATTRIBUTE_COMPUTE_CAPABILITY_MINOR d2 r2 minor \<in> set evs"
    and "Ev_nvrtcCompileProgram prog opts res \<in> set evs"
    and "length (fmt_d major) + length (fmt_d minor) \<le> 9"
  shows "d1 = dev \<and> d2 = dev \<and> opts \<noteq> [] \<and>
         hd opts = ''--gpu-architecture=sm_'' @ fmt_d major @ fmt_d minor"
proof -
  have "wp (compileFileToCUBIN E filename argc argv requiresCGheaders)
     (\<lambda>r s'.
        Ev_findCudaDeviceDRV (Inr dev) \<in> set (drop (length (trace s)) (trace s')) \<longrightarrow>
        Ev_cuDeviceGetAttribute CU_DEVICE_ATTRIBUTE_COMPUTE_CAPABILITY_MAJOR d1 r1 major
           \<in> set (drop (length (trace s)) (trace s')) \<longrightarrow>
        Ev_cuDeviceGetAttribute CU_DEVICE_ATTRIBUTE_COMPUTE_CAPABILITY_MINOR d2 r2 minor
           \<in> set (drop (length (trace s)) (trace s')) \<longrightarrow>
        Ev_nvrtcCompileProgram prog opts res \<in> set (drop (length (trace s)) (trace s')) \<longrightarrow>
        length (fmt_d major) + length (fmt_d minor) \<le> 9 \<longrightarrow>
        d1 = dev \<and> d2 = dev \<and> opts \<noteq> [] \<and>
        hd opts = ''--gpu-architecture=sm_'' @ fmt_d major @ fmt_d minor) s"
    unfolding compileFileToCUBIN_def
    by (cases "windows E")
       (simp_all add: Let_def formatted_text_windows formatted_text_posix sprintf_s_eq_Some
          sprintf_s_eq_None snprintf_def)
  with assms show ?thesis
    by (simp add: wp_run events_of_def)
qed

theorem architecture_option_from_selected_device_witness:
  "Ev_findCudaDeviceDRV (Inr 0)
     \<in> set (events_of (compileFileToCUBIN (sample_ext False 0 []) (Some ''k.cu'') 1 [''/a/x''] 1)
              sample_state) \<and>
   Ev_cuDeviceGetAttribute CU_DEVICE_ATTRIBUTE_COMPUTE_CAPABILITY_MAJOR 0 0 8
     \<in> set (events_of (compileFileToCUBIN (sample_ext False 0 []) (Some ''k.cu'') 1 [''/a/x''] 1)
              sample_state) \<and>
   Ev_cuDeviceGetAttribute CU_DEVICE_ATTRIBUTE_COMPUTE_CAPABILITY_MINOR 0 0 6
     \<in> set (events_of (compileFileToCUBIN (sample_ext False 0 []) (Some ''k.cu'') 1 [''/a/x''] 1)
              sample_state) \<and>
   Ev_nvrtcCompileProgram 1 [''--gpu-architecture=sm_86'', ''--include-path=/a''] 0
     \<in> set (events_of (compileFileToCUBIN (sample_ext False 0 []) (Some ''k.cu'') 1 [''/a/x''] 1)
              sample_state) \<and>
   length (fmt_d 8) + length (fmt_d 6) \<le> 9 \<and>
   hd [''--gpu-architecture=sm_86'', ''--include-path=/a'']
     = ''--gpu-architecture=sm_'' @ fmt_d 8 @ fmt_d 6"
proof -
  let ?evs = "events_of (compileFileToCUBIN (sample_ext False 0 []) (Some ''k.cu'') 1 [''/a/x''] 1)
                sample_state"
  have evs: "?evs = events_of (sample_compile False 0 [] [''/a/x''] 1) sample_state"
    by (simp add: sample_compile_def)
  have a: "Ev_findCudaDeviceDRV (Inr 0) \<in> set ?evs"
    and b: "Ev_cuDeviceGetAttribute CU_DEVICE_ATTRIBUTE_COMPUTE_CAPABILITY_MAJOR 0 0 8 \<in> set ?evs"
    and c: "Ev_cuDeviceGetAttribute CU_DEVICE_ATTRIBUTE_COMPUTE_CAPABILITY_MINOR 0 0 6 \<in> set ?evs"
    and d: "Ev_nvrtcCompileProgram 1 [''--gpu-architecture=sm_86'', ''--include-path=/a''] 0 \<in> set ?evs"
    unfolding evs using sample_compile_ok by simp_all
  have e: "length (fmt_d 8) + length (fmt_d 6) \<le> 9"
    by (simp add: fmt_d_def dec_nat_digit)
  from architecture_option_from_selected_device [OF refl a b c d e] a b c d e show ?thesis
    by simp
qed

text \<open>
  C4, as stated, says that the argument list is used only to select the device. When
  \<open>requiresCGheaders\<close> is nonzero, \<open>argv[0]\<close> is also handed to \<^verbatim>\<open>sdkFindFilePath\<close>
  (line 127) to locate the header, and the directory found becomes the include path. In
  the sample environment two argument lists select the same device and give different
  compile options.
\<close>

theorem same_device_other_include_path:
  "select_device (sample_ext False 0 []) 1 [''/a/x''] (world sample_state) =
     select_device (sample_ext False 0 []) 1 [''/b/x''] (world sample_state) \<and>
   compile_options
     (events_of (compileFileToCUBIN (sample_ext False 0 []) (Some ''k.cu'') 1 [''/a/x''] 1)
        sample_state) \<noteq>
   compile_options
     (events_of (compileFileToCUBIN (sample_ext False 0 []) (Some ''k.cu'') 1 [''/b/x''] 1)
        sample_state)"
  using sample_compile_ok sample_compile_other_dir
  by (simp add: sample_compile_def sample_ext_def)

text \<open>
  C4, amended. The argument list is used to select the device and, when
  \<open>requiresCGheaders\<close> is nonzero, its first element is used to locate the header (and is
  printed in one message). For two argument lists under which the selection gives the
  same result, \<^verbatim>\<open>compileFileToCUBIN\<close> behaves identically (same outcome, same calls with
  the same compile options, same output, same binary) provided \<open>requiresCGheaders\<close> is
  zero or the two lists have the same first element; \<^verbatim>\<open>loadCUBIN\<close> behaves identically
  in any case.
\<close>

theorem arguments_select_device_and_locate_header:
  assumes "select_device E argc1 argv1 (world s) = select_device E argc2 argv2 (world s)"
  shows "(requiresCGheaders = 0 \<or> argv0 argv1 = argv0 argv2 \<longrightarrow>
            compileFileToCUBIN E filename argc1 argv1 requiresCGheaders s =
            compileFileToCUBIN E filename argc2 argv2 requiresCGheaders s) \<and>
         loadCUBIN E cubin argc1 argv1 s = loadCUBIN E cubin argc2 argv2 s"
proof (intro conjI impI)
  show "loadCUBIN E cubin argc1 argv1 s = loadCUBIN E cubin argc2 argv2 s"
  proof (rule wp_determines)
    fix Q
    show "wp (loadCUBIN E cubin argc1 argv1) Q s = wp (loadCUBIN E cubin argc2 argv2) Q s"
      unfolding loadCUBIN_def using assms by (simp add: Let_def)
  qed
next
  assume "requiresCGheaders = 0 \<or> argv0 argv1 = argv0 argv2"
  then show "compileFileToCUBIN E filename argc1 argv1 requiresCGheaders s =
             compileFileToCUBIN E filename argc2 argv2 requiresCGheaders s"
  proof
    assume req: "requiresCGheaders = 0"
    show ?thesis
    proof (rule wp_determines)
      fix Q
      show "wp (compileFileToCUBIN E filename argc1 argv1 requiresCGheaders) Q s =
            wp (compileFileToCUBIN E filename argc2 argv2 requiresCGheaders) Q s"
        unfolding compileFileToCUBIN_def using assms req by (simp add: Let_def)
    qed
  next
    assume a0: "argv0 argv1 = argv0 argv2"
    show ?thesis
    proof (rule wp_determines)
      fix Q
      show "wp (compileFileToCUBIN E filename argc1 argv1 requiresCGheaders) Q s =
            wp (compileFileToCUBIN E filename argc2 argv2 requiresCGheaders) Q s"
        unfolding compileFileToCUBIN_def using assms a0 by (simp add: Let_def)
    qed
  qed
qed

theorem arguments_select_device_and_locate_header_witness:
  "select_device (sample_ext False 0 []) 1 [''/a/x''] (world sample_state) =
     select_device (sample_ext False 0 []) 2 [''/b/x'', ''-device=0''] (world sample_state) \<and>
   compileFileToCUBIN (sample_ext False 0 []) (Some ''k.cu'') 1 [''/a/x''] 0 sample_state =
     compileFileToCUBIN (sample_ext False 0 []) (Some ''k.cu'') 2 [''/b/x'', ''-device=0''] 0 sample_state \<and>
   loadCUBIN (sample_ext False 0 []) 4 1 [''/a/x''] sample_state =
     loadCUBIN (sample_ext False 0 []) 4 2 [''/b/x'', ''-device=0''] sample_state"
proof -
  have a: "select_device (sample_ext False 0 []) 1 [''/a/x''] (world sample_state) =
     select_device (sample_ext False 0 []) 2 [''/b/x'', ''-device=0''] (world sample_state)"
    by (simp add: sample_ext_def)
  from arguments_select_device_and_locate_header [OF a, of 0 "Some ''k.cu''" 4] a show ?thesis
    by simp
qed

text \<open>
  C5, as stated, says that no call of the compiler library occurs outside the sequence
  create, compile, log size, log, binary size, binary. When a call fails,
  \<^verbatim>\<open>NVRTC_SAFE_CALL\<close> calls \<^verbatim>\<open>nvrtcGetErrorString\<close> (line 45), a function of the same
  library: in the sample environment with a failing compilation, the calls are not an
  initial segment of the sequence.
\<close>

theorem compiler_calls_not_only_the_sequence:
  "\<not> starts
       (nvrtc_calls
          (events_of (compileFileToCUBIN (sample_ext False 6 ''e1'') (Some ''k.cu'') 1 [''/a/x''] 0)
             sample_state))
       compile_sequence"
  using sample_compile_fails
  by (simp add: sample_compile_def starts_def compile_sequence_def)

text \<open>
  C5, amended. The calls of the compiler library are made in the order create, compile,
  log size, log, binary size, binary; a run that returns makes exactly these six. The
  only other call of the library is \<^verbatim>\<open>nvrtcGetErrorString\<close>, which \<^verbatim>\<open>NVRTC_SAFE_CALL\<close>
  makes once, as the last call, right before \<^verbatim>\<open>exit(1)\<close>, and only when a call has
  failed.
\<close>

theorem compiler_calls_in_order:
  "starts (without_diagnostic
             (nvrtc_calls (events_of (compileFileToCUBIN E filename argc argv requiresCGheaders) s)))
     compile_sequence \<and>
   (outcome (compileFileToCUBIN E filename argc argv requiresCGheaders) s = Ret () \<longrightarrow>
      nvrtc_calls (events_of (compileFileToCUBIN E filename argc argv requiresCGheaders) s)
        = compile_sequence) \<and>
   (GetErrorString
      \<in> set (nvrtc_calls (events_of (compileFileToCUBIN E filename argc argv requiresCGheaders) s))
    \<longrightarrow>
      outcome (compileFileToCUBIN E filename argc argv requiresCGheaders) s = Exited 1 \<and>
      last (nvrtc_calls (events_of (compileFileToCUBIN E filename argc argv requiresCGheaders) s))
        = GetErrorString \<and>
      (\<exists>e \<in> set (events_of (compileFileToCUBIN E filename argc argv requiresCGheaders) s).
         failed e))"
proof -
  have "wp (compileFileToCUBIN E filename argc argv requiresCGheaders)
     (\<lambda>r s'.
        starts (without_diagnostic (nvrtc_calls (drop (length (trace s)) (trace s'))))
          compile_sequence \<and>
        (r = Ret () \<longrightarrow> nvrtc_calls (drop (length (trace s)) (trace s')) = compile_sequence) \<and>
        (GetErrorString \<in> set (nvrtc_calls (drop (length (trace s)) (trace s'))) \<longrightarrow>
           r = Exited 1 \<and>
           last (nvrtc_calls (drop (length (trace s)) (trace s'))) = GetErrorString \<and>
           (\<exists>e \<in> set (drop (length (trace s)) (trace s')). failed e))) s"
    unfolding compileFileToCUBIN_def
    by (simp add: Let_def starts_def without_diagnostic_def compile_sequence_def)
  from this [unfolded wp_run] show ?thesis
    unfolding events_of_def by blast
qed

theorem compiler_calls_in_order_witness:
  "outcome (compileFileToCUBIN (sample_ext False 0 []) (Some ''k.cu'') 1 [''/a/x''] 1) sample_state
     = Ret () \<and>
   nvrtc_calls
     (events_of (compileFileToCUBIN (sample_ext False 0 []) (Some ''k.cu'') 1 [''/a/x''] 1)
        sample_state) = compile_sequence \<and>
   GetErrorString
     \<in> set (nvrtc_calls
         (events_of (compileFileToCUBIN (sample_ext False 6 ''e1'') (Some ''k.cu'') 1 [''/a/x''] 0)
            sample_state)) \<and>
   outcome (compileFileToCUBIN (sample_ext False 6 ''e1'') (Some ''k.cu'') 1 [''/a/x''] 0)
     sample_state = Exited 1 \<and>
   last (nvrtc_calls
      (events_of (compileFileToCUBIN (sample_ext False 6 ''e1'') (Some ''k.cu'') 1 [''/a/x''] 0)
         sample_state)) = GetErrorString \<and>
   (\<exists>e \<in> set (events_of (compileFileToCUBIN (sample_ext False 6 ''e1'') (Some ''k.cu'') 1 [''/a/x''] 0)
               sample_state). failed e)"
proof -
  have a: "outcome (compileFileToCUBIN (sample_ext False 0 []) (Some ''k.cu'') 1 [''/a/x''] 1)
             sample_state = Ret ()"
    using sample_compile_ok by (simp add: sample_compile_def)
  have b: "GetErrorString
     \<in> set (nvrtc_calls
         (events_of (compileFileToCUBIN (sample_ext False 6 ''e1'') (Some ''k.cu'') 1 [''/a/x''] 0)
            sample_state))"
    using sample_compile_fails by (simp add: sample_compile_def)
  from a b
    compiler_calls_in_order [of "sample_ext False 0 []" "Some ''k.cu''" 1 "[''/a/x'']" 1 sample_state]
    compiler_calls_in_order [of "sample_ext False 6 ''e1''" "Some ''k.cu''" 1 "[''/a/x'']" 0 sample_state]
  show ?thesis
    by blast
qed

text \<open>
  C6. A call of \<^verbatim>\<open>loadCUBIN\<close> that returns has done this, in this order: selected a
  device (and queried its two capability numbers and its name), initialised the driver
  API, created a context on that device, handed the contents of the binary buffer to
  \<^verbatim>\<open>cuModuleLoadData\<close>, and freed the buffer, once, after the load. It returns the module
  that the loader produced. The buffer was a live block before the call and is released
  after it; no other block is touched.
\<close>

theorem loadCUBIN_sequence:
  assumes "outcome (loadCUBIN E cubin argc argv) s = Ret module"
  shows "\<exists>dev major minor name context image.
           events_of (loadCUBIN E cubin argc argv) s =
             [Ev_findCudaDeviceDRV (Inr dev),
              Ev_cuDeviceGetAttribute CU_DEVICE_ATTRIBUTE_COMPUTE_CAPABILITY_MAJOR dev CUDA_SUCCESS major,
              Ev_cuDeviceGetAttribute CU_DEVICE_ATTRIBUTE_COMPUTE_CAPABILITY_MINOR dev CUDA_SUCCESS minor,
              Ev_cuDeviceGetName 256 dev CUDA_SUCCESS name,
              Ev_cuInit 0 CUDA_SUCCESS,
              Ev_cuCtxCreate 0 dev CUDA_SUCCESS context,
              Ev_cuModuleLoadData image CUDA_SUCCESS module,
              Ev_free cubin] \<and>
           heap s cubin = Some image \<and>
           heap (final (loadCUBIN E cubin argc argv) s) = (heap s)(cubin := None)"
proof -
  have "wp (loadCUBIN E cubin argc argv)
     (\<lambda>r s'. r = Ret module \<longrightarrow>
        (\<exists>dev major minor name context image.
           drop (length (trace s)) (trace s') =
             [Ev_findCudaDeviceDRV (Inr dev),
              Ev_cuDeviceGetAttribute CU_DEVICE_ATTRIBUTE_COMPUTE_CAPABILITY_MAJOR dev CUDA_SUCCESS major,
              Ev_cuDeviceGetAttribute CU_DEVICE_ATTRIBUTE_COMPUTE_CAPABILITY_MINOR dev CUDA_SUCCESS minor,
              Ev_cuDeviceGetName 256 dev CUDA_SUCCESS name,
              Ev_cuInit 0 CUDA_SUCCESS,
              Ev_cuCtxCreate 0 dev CUDA_SUCCESS context,
              Ev_cuModuleLoadData image CUDA_SUCCESS module,
              Ev_free cubin] \<and>
           heap s cubin = Some image \<and>
           heap s' = (heap s)(cubin := None))) s"
    unfolding loadCUBIN_def
    by (simp add: Let_def)
  with assms show ?thesis
    by (simp add: wp_run events_of_def)
qed

theorem loadCUBIN_sequence_witness:
  "outcome (loadCUBIN (sample_ext False 0 []) 4 1 [''/a/x'']) (sample_loaded ''CUBIN'') = Ret 7 \<and>
   (\<exists>dev major minor name context image.
      events_of (loadCUBIN (sample_ext False 0 []) 4 1 [''/a/x'']) (sample_loaded ''CUBIN'') =
        [Ev_findCudaDeviceDRV (Inr dev),
         Ev_cuDeviceGetAttribute CU_DEVICE_ATTRIBUTE_COMPUTE_CAPABILITY_MAJOR dev CUDA_SUCCESS major,
         Ev_cuDeviceGetAttribute CU_DEVICE_ATTRIBUTE_COMPUTE_CAPABILITY_MINOR dev CUDA_SUCCESS minor,
         Ev_cuDeviceGetName 256 dev CUDA_SUCCESS name,
         Ev_cuInit 0 CUDA_SUCCESS,
         Ev_cuCtxCreate 0 dev CUDA_SUCCESS context,
         Ev_cuModuleLoadData image CUDA_SUCCESS 7,
         Ev_free 4] \<and>
      heap (sample_loaded ''CUBIN'') 4 = Some image \<and>
      heap (final (loadCUBIN (sample_ext False 0 []) 4 1 [''/a/x'']) (sample_loaded ''CUBIN''))
        = (heap (sample_loaded ''CUBIN''))(4 := None))"
proof -
  have a: "outcome (loadCUBIN (sample_ext False 0 []) 4 1 [''/a/x'']) (sample_loaded ''CUBIN'') = Ret 7"
    using sample_load_ok by simp
  from loadCUBIN_sequence [OF a] a show ?thesis
    by simp
qed

text \<open>
  C7. The number of options is as the claim says: whenever the compiler is invoked, it is
  handed exactly one option when \<open>requiresCGheaders\<close> is zero and exactly two when it is
  not; the first is the architecture flag, and the second is the text that the formatting
  call leaves for \<open>--include-path=\<close> followed by the directory of the header, which is
  the path that \<^verbatim>\<open>sdkFindFilePath\<close> returned, cut where the header's name starts.
\<close>

lemma compile_option_count:
  assumes "evs = events_of (compileFileToCUBIN E filename argc argv requiresCGheaders) s"
    and "Ev_nvrtcCompileProgram prog opts res \<in> set evs"
  shows "length opts = (if requiresCGheaders = 0 then 1 else 2) \<and>
         take 22 (hd opts) = ''--gpu-architecture=sm_'' \<and>
         (requiresCGheaders \<noteq> 0 \<and> Ev_sdkFindFilePath hdr exe (Some path) \<in> set evs \<and>
            string_find path hdr = Some found \<longrightarrow>
          include_path_option E (take found path) = Some (opts ! 1))"
proof -
  have "wp (compileFileToCUBIN E filename argc argv requiresCGheaders)
     (\<lambda>r s'.
        Ev_nvrtcCompileProgram prog opts res \<in> set (drop (length (trace s)) (trace s')) \<longrightarrow>
        length opts = (if requiresCGheaders = 0 then 1 else 2) \<and>
        take 22 (hd opts) = ''--gpu-architecture=sm_'' \<and>
        (requiresCGheaders \<noteq> 0 \<longrightarrow>
         Ev_sdkFindFilePath hdr exe (Some path) \<in> set (drop (length (trace s)) (trace s')) \<longrightarrow>
         string_find path hdr = Some found \<longrightarrow>
         include_path_option E (take found path) = Some (opts ! 1))) s"
    unfolding compileFileToCUBIN_def
    by (cases "windows E")
       (simp_all add: Let_def include_path_option_def formatted_text_windows formatted_text_posix
          sprintf_s_eq_Some sprintf_s_eq_None snprintf_def)
  with assms show ?thesis
    by (simp add: wp_run events_of_def)
qed


text \<open>
  C8. On a build that is not a Windows build, the include-path option handed to the
  compiler is \<open>--include-path=\<close> followed by the directory, with its last character
  dropped: \<^verbatim>\<open>snprintf\<close> is given the length of the string as the size of the buffer and
  stores one character fewer.
\<close>

theorem include_option_loses_last_character:
  assumes "\<not> windows E"
    and "evs = events_of (compileFileToCUBIN E filename argc argv requiresCGheaders) s"
    and "Ev_nvrtcCompileProgram prog opts res \<in> set evs"
    and "Ev_sdkFindFilePath hdr exe (Some path) \<in> set evs"
    and "string_find path hdr = Some found"
  shows "requiresCGheaders \<noteq> 0 \<and> length opts = 2 \<and>
         opts ! 1 = butlast (''--include-path='' @ take found path)"
proof -
  have "wp (compileFileToCUBIN E filename argc argv requiresCGheaders)
     (\<lambda>r s'.
        Ev_nvrtcCompileProgram prog opts res \<in> set (drop (length (trace s)) (trace s')) \<longrightarrow>
        Ev_sdkFindFilePath hdr exe (Some path) \<in> set (drop (length (trace s)) (trace s')) \<longrightarrow>
        string_find path hdr = Some found \<longrightarrow>
        requiresCGheaders \<noteq> 0 \<and> length opts = 2 \<and>
        opts ! 1 = butlast (''--include-path='' @ take found path)) s"
    unfolding compileFileToCUBIN_def
    using assms(1) by (simp add: Let_def formatted_text_posix snprintf_def butlast_conv_take)
  with assms show ?thesis
    by (simp add: wp_run events_of_def)
qed

theorem include_option_loses_last_character_witness:
  "\<not> windows (sample_ext False 0 []) \<and>
   Ev_nvrtcCompileProgram 1 [''--gpu-architecture=sm_86'', ''--include-path=/a''] 0
     \<in> set (events_of (compileFileToCUBIN (sample_ext False 0 []) (Some ''k.cu'') 1 [''/a/x''] 1)
              sample_state) \<and>
   Ev_sdkFindFilePath ''cooperative_groups.h'' (Some ''/a/x'') (Some ''/a/cooperative_groups.h'')
     \<in> set (events_of (compileFileToCUBIN (sample_ext False 0 []) (Some ''k.cu'') 1 [''/a/x''] 1)
              sample_state) \<and>
   string_find ''/a/cooperative_groups.h'' ''cooperative_groups.h'' = Some 3 \<and>
   [''--gpu-architecture=sm_86'', ''--include-path=/a''] ! 1
     = butlast (''--include-path='' @ take 3 ''/a/cooperative_groups.h'')"
proof -
  let ?evs = "events_of (compileFileToCUBIN (sample_ext False 0 []) (Some ''k.cu'') 1 [''/a/x''] 1)
                sample_state"
  have evs: "?evs = events_of (sample_compile False 0 [] [''/a/x''] 1) sample_state"
    by (simp add: sample_compile_def)
  have w: "\<not> windows (sample_ext False 0 [])"
    by (simp add: sample_ext_def)
  have a: "Ev_nvrtcCompileProgram 1 [''--gpu-architecture=sm_86'', ''--include-path=/a''] 0 \<in> set ?evs"
    and b: "Ev_sdkFindFilePath ''cooperative_groups.h'' (Some ''/a/x'')
              (Some ''/a/cooperative_groups.h'') \<in> set ?evs"
    unfolding evs using sample_compile_ok by simp_all
  have c: "string_find ''/a/cooperative_groups.h'' ''cooperative_groups.h'' = Some 3"
    by simp
  from include_option_loses_last_character [OF w refl a b c] w a b c show ?thesis
    by simp
qed

text \<open>
  C9. Whenever \<^verbatim>\<open>nvrtcCreateProgram\<close> is called, the file was opened, the size
  \<open>inputSize\<close> was computed from the position at the end of the stream, all \<open>inputSize\<close>
  bytes were read from position 0, and the source text handed over is these bytes
  followed by one appended NUL; the name handed over is the file name. So for a file
  whose end position is the length of its contents (a regular file, of a size that fits
  \<^verbatim>\<open>size_t\<close>) the source text is the whole contents of the file, read from its
  beginning, followed by one NUL. A run in which the stream reports another end position
  and delivers fewer bytes does not reach the call with a determined buffer, and one in
  which \<open>inputSize + 1\<close> wraps around writes the NUL outside the block. (The call takes
  the buffer as a C string, so the library reads it up to its first NUL.)
\<close>

theorem source_text_is_file_contents:
  assumes "Ev_nvrtcCreateProgram src name res prog
             \<in> set (events_of (compileFileToCUBIN E filename argc argv requiresCGheaders) s)"
  shows "\<exists>fname f.
           filename = Some fname \<and> ifstream_open E fname (world s) = Some f \<and> name = fname \<and>
           src = stream_read f 0 (size_t (tellg f)) @ [NUL] \<and>
           length (stream_read f 0 (size_t (tellg f))) = size_t (tellg f) \<and>
           (tellg f = int (length (bytes f)) \<and> length (bytes f) < 2 ^ 64 \<longrightarrow>
              src = bytes f @ [NUL])"
proof -
  have "wp (compileFileToCUBIN E filename argc argv requiresCGheaders)
     (\<lambda>r s'.
        Ev_nvrtcCreateProgram src name res prog \<in> set (drop (length (trace s)) (trace s')) \<longrightarrow>
        (\<exists>fname f.
           filename = Some fname \<and> ifstream_open E fname (world s) = Some f \<and> name = fname \<and>
           src = stream_read f 0 (size_t (tellg f)) @ [NUL] \<and>
           length (stream_read f 0 (size_t (tellg f))) = size_t (tellg f))) s"
    unfolding compileFileToCUBIN_def
    by (simp add: Let_def seekg_def)
  from this [unfolded wp_run] assms
  obtain fname f where f:
    "filename = Some fname" "ifstream_open E fname (world s) = Some f" "name = fname"
    "src = stream_read f 0 (size_t (tellg f)) @ [NUL]"
    "length (stream_read f 0 (size_t (tellg f))) = size_t (tellg f)"
    unfolding events_of_def by blast
  have "src = bytes f @ [NUL]"
    if "tellg f = int (length (bytes f))" and "length (bytes f) < 2 ^ 64"
  proof -
    from that have "size_t (tellg f) = length (bytes f)"
      by (simp add: size_t_def)
    with f(4) show ?thesis
      by (simp add: stream_read_def)
  qed
  with f show ?thesis
    by blast
qed

theorem source_text_is_file_contents_witness:
  "Ev_nvrtcCreateProgram (''__global__ void k(){}'' @ [CHR 0x00]) ''k.cu'' 0 1
     \<in> set (events_of (compileFileToCUBIN (sample_ext False 0 []) (Some ''k.cu'') 1 [''/a/x''] 1)
              sample_state) \<and>
   ifstream_open (sample_ext False 0 []) ''k.cu'' (world sample_state)
     = Some \<lparr>end_pos = 21, bytes = ''__global__ void k(){}''\<rparr> \<and>
   tellg \<lparr>end_pos = 21, bytes = ''__global__ void k(){}''\<rparr>
     = int (length (bytes \<lparr>end_pos = 21, bytes = ''__global__ void k(){}''\<rparr>)) \<and>
   length (bytes \<lparr>end_pos = 21, bytes = ''__global__ void k(){}''\<rparr>) < 2 ^ 64 \<and>
   ''__global__ void k(){}'' @ [CHR 0x00]
     = bytes \<lparr>end_pos = 21, bytes = ''__global__ void k(){}''\<rparr> @ [NUL]"
proof -
  have ev: "Ev_nvrtcCreateProgram (''__global__ void k(){}'' @ [CHR 0x00]) ''k.cu'' 0 1
     \<in> set (events_of (compileFileToCUBIN (sample_ext False 0 []) (Some ''k.cu'') 1 [''/a/x''] 1)
              sample_state)"
    using sample_compile_ok by (simp add: sample_compile_def)
  have op: "ifstream_open (sample_ext False 0 []) ''k.cu'' (world sample_state)
     = Some \<lparr>end_pos = 21, bytes = ''__global__ void k(){}''\<rparr>"
    by (simp add: sample_ext_def)
  have sz: "tellg \<lparr>end_pos = 21, bytes = ''__global__ void k(){}''\<rparr>
     = int (length (bytes \<lparr>end_pos = 21, bytes = ''__global__ void k(){}''\<rparr>))"
    and lt: "length (bytes \<lparr>end_pos = 21, bytes = ''__global__ void k(){}''\<rparr>) < 2 ^ 64"
    by (simp_all add: tellg_def)
  from source_text_is_file_contents [OF ev] op sz lt
  have "''__global__ void k(){}'' @ [CHR 0x00]
     = bytes \<lparr>end_pos = 21, bytes = ''__global__ void k(){}''\<rparr> @ [NUL]"
    by auto
  with ev op sz lt show ?thesis
    by (intro conjI)
qed

text \<open>
  C10. The log is fetched and printed before the result of the compilation is checked.
  In every run whose behaviour is defined, the call of \<^verbatim>\<open>nvrtcCompileProgram\<close>, whatever
  it returns, is followed at once by \<^verbatim>\<open>nvrtcGetProgramLogSize\<close> on the same program; if
  that call succeeds, \<^verbatim>\<open>nvrtcGetProgramLog\<close> follows (a failure of either call ends
  the run with the diagnostic of that call); if that call succeeds too, what
  the run prints to standard error starts with the log between its two banner lines if
  the log buffer, read up to its first NUL, has at least 2 characters, and with nothing
  otherwise. Only then is the result of the compilation checked: when the compilation
  failed, the calls that remain are the release of the log buffer and the rendering of
  the diagnostic, which is printed after the log, right before \<^verbatim>\<open>exit(1)\<close>. When the
  run returns, nothing but the log was printed.
\<close>

theorem log_dumped_before_compile_check:
  assumes "evs = events_of (compileFileToCUBIN E filename argc argv requiresCGheaders) s"
    and "Ev_nvrtcCompileProgram prog opts res \<in> set evs"
    and "outcome (compileFileToCUBIN E filename argc argv requiresCGheaders) s \<noteq> Undefined"
  shows "\<exists>r logSize evs1.
           after_compile evs = Ev_nvrtcGetProgramLogSize prog r logSize # evs1 \<and>
           (r \<noteq> NVRTC_SUCCESS \<longrightarrow>
              (\<exists>msg. evs1 = [Ev_nvrtcGetErrorString r msg]) \<and>
              outcome (compileFileToCUBIN E filename argc argv requiresCGheaders) s = Exited 1) \<and>
           (r = NVRTC_SUCCESS \<longrightarrow>
              (\<exists>r2 stored evs2.
                 evs1 = Ev_nvrtcGetProgramLog prog r2 stored # evs2 \<and>
                 (r2 \<noteq> NVRTC_SUCCESS \<longrightarrow>
                    (\<exists>msg. evs2 = [Ev_nvrtcGetErrorString r2 msg]) \<and>
                    outcome (compileFileToCUBIN E filename argc argv requiresCGheaders) s
                      = Exited 1) \<and>
                 (r2 = NVRTC_SUCCESS \<longrightarrow>
                    (\<exists>rest.
                       printed_err (compileFileToCUBIN E filename argc argv requiresCGheaders) s =
                         (if strlen (take logSize stored @ [NUL]) \<ge> 2 then
                            [NL # '' compilation log ---'' @ [NL],
                             c_str (take logSize stored @ [NUL]),
                             NL # '' end log ---'' @ [NL]]
                          else []) @ rest \<and>
                       (res \<noteq> NVRTC_SUCCESS \<longrightarrow>
                          outcome (compileFileToCUBIN E filename argc argv requiresCGheaders) s
                            = Exited 1 \<and>
                          (\<exists>log msg.
                             evs2 = [Ev_free log, Ev_nvrtcGetErrorString res msg] \<and>
                             rest = diagnostic ''nvrtcCompileProgram'' msg)) \<and>
                       (outcome (compileFileToCUBIN E filename argc argv requiresCGheaders) s
                          = Ret () \<longrightarrow> rest = [])))))"
proof -
  have "wp (compileFileToCUBIN E filename argc argv requiresCGheaders)
     (\<lambda>r' s'.
        r' \<noteq> Undefined \<longrightarrow>
        Ev_nvrtcCompileProgram prog opts res \<in> set (drop (length (trace s)) (trace s')) \<longrightarrow>
        (\<exists>r logSize evs1.
           after_compile (drop (length (trace s)) (trace s'))
             = Ev_nvrtcGetProgramLogSize prog r logSize # evs1 \<and>
           (r \<noteq> NVRTC_SUCCESS \<longrightarrow>
              (\<exists>msg. evs1 = [Ev_nvrtcGetErrorString r msg]) \<and> r' = Exited 1) \<and>
           (r = NVRTC_SUCCESS \<longrightarrow>
              (\<exists>r2 stored evs2.
                 evs1 = Ev_nvrtcGetProgramLog prog r2 stored # evs2 \<and>
                 (r2 \<noteq> NVRTC_SUCCESS \<longrightarrow>
                    (\<exists>msg. evs2 = [Ev_nvrtcGetErrorString r2 msg]) \<and> r' = Exited 1) \<and>
                 (r2 = NVRTC_SUCCESS \<longrightarrow>
                    (\<exists>rest.
                       drop (length (cerr s)) (cerr s') =
                         log_output (take logSize stored @ [NUL]) @ rest \<and>
                       (res \<noteq> NVRTC_SUCCESS \<longrightarrow>
                          r' = Exited 1 \<and>
                          (\<exists>log msg.
                             evs2 = [Ev_free log, Ev_nvrtcGetErrorString res msg] \<and>
                             rest = diagnostic ''nvrtcCompileProgram'' msg)) \<and>
                       (r' = Ret () \<longrightarrow> rest = []))))))) s"
    unfolding compileFileToCUBIN_def
    by (simp add: Let_def)
  from this [unfolded wp_run] assms
  have "\<exists>r logSize evs1.
           after_compile evs = Ev_nvrtcGetProgramLogSize prog r logSize # evs1 \<and>
           (r \<noteq> NVRTC_SUCCESS \<longrightarrow>
              (\<exists>msg. evs1 = [Ev_nvrtcGetErrorString r msg]) \<and>
              outcome (compileFileToCUBIN E filename argc argv requiresCGheaders) s = Exited 1) \<and>
           (r = NVRTC_SUCCESS \<longrightarrow>
              (\<exists>r2 stored evs2.
                 evs1 = Ev_nvrtcGetProgramLog prog r2 stored # evs2 \<and>
                 (r2 \<noteq> NVRTC_SUCCESS \<longrightarrow>
                    (\<exists>msg. evs2 = [Ev_nvrtcGetErrorString r2 msg]) \<and>
                    outcome (compileFileToCUBIN E filename argc argv requiresCGheaders) s
                      = Exited 1) \<and>
                 (r2 = NVRTC_SUCCESS \<longrightarrow>
                    (\<exists>rest.
                       printed_err (compileFileToCUBIN E filename argc argv requiresCGheaders) s =
                         log_output (take logSize stored @ [NUL]) @ rest \<and>
                       (res \<noteq> NVRTC_SUCCESS \<longrightarrow>
                          outcome (compileFileToCUBIN E filename argc argv requiresCGheaders) s
                            = Exited 1 \<and>
                          (\<exists>log msg.
                             evs2 = [Ev_free log, Ev_nvrtcGetErrorString res msg] \<and>
                             rest = diagnostic ''nvrtcCompileProgram'' msg)) \<and>
                       (outcome (compileFileToCUBIN E filename argc argv requiresCGheaders) s
                          = Ret () \<longrightarrow> rest = [])))))"
    unfolding events_of_def printed_err_def by blast
  then show ?thesis
    unfolding log_output_def .
qed

theorem log_dumped_before_compile_check_witness:
  "Ev_nvrtcCompileProgram 1 [''--gpu-architecture=sm_86''] 6
     \<in> set (events_of (compileFileToCUBIN (sample_ext False 6 ''e1'') (Some ''k.cu'') 1 [''/a/x''] 0) sample_state) \<and>
   outcome (compileFileToCUBIN (sample_ext False 6 ''e1'') (Some ''k.cu'') 1 [''/a/x''] 0) sample_state \<noteq> Undefined \<and>
   (\<exists>r logSize evs1.
      after_compile (events_of (compileFileToCUBIN (sample_ext False 6 ''e1'') (Some ''k.cu'') 1 [''/a/x''] 0) sample_state)
        = Ev_nvrtcGetProgramLogSize 1 r logSize # evs1 \<and>
      (r \<noteq> NVRTC_SUCCESS \<longrightarrow>
         (\<exists>msg. evs1 = [Ev_nvrtcGetErrorString r msg]) \<and>
         outcome (compileFileToCUBIN (sample_ext False 6 ''e1'') (Some ''k.cu'') 1 [''/a/x''] 0) sample_state = Exited 1) \<and>
      (r = NVRTC_SUCCESS \<longrightarrow>
         (\<exists>r2 stored evs2.
            evs1 = Ev_nvrtcGetProgramLog 1 r2 stored # evs2 \<and>
            (r2 \<noteq> NVRTC_SUCCESS \<longrightarrow>
               (\<exists>msg. evs2 = [Ev_nvrtcGetErrorString r2 msg]) \<and>
               outcome (compileFileToCUBIN (sample_ext False 6 ''e1'') (Some ''k.cu'') 1 [''/a/x''] 0) sample_state = Exited 1) \<and>
            (r2 = NVRTC_SUCCESS \<longrightarrow>
               (\<exists>rest.
                  printed_err (compileFileToCUBIN (sample_ext False 6 ''e1'') (Some ''k.cu'') 1 [''/a/x''] 0) sample_state =
                    (if strlen (take logSize stored @ [NUL]) \<ge> 2 then
                       [NL # '' compilation log ---'' @ [NL],
                        c_str (take logSize stored @ [NUL]),
                        NL # '' end log ---'' @ [NL]]
                     else []) @ rest \<and>
                  (6 \<noteq> NVRTC_SUCCESS \<longrightarrow>
                     outcome (compileFileToCUBIN (sample_ext False 6 ''e1'') (Some ''k.cu'') 1 [''/a/x''] 0) sample_state = Exited 1 \<and>
                     (\<exists>log msg.
                        evs2 = [Ev_free log, Ev_nvrtcGetErrorString 6 msg] \<and>
                        rest = diagnostic ''nvrtcCompileProgram'' msg)) \<and>
                  (outcome (compileFileToCUBIN (sample_ext False 6 ''e1'') (Some ''k.cu'') 1 [''/a/x''] 0) sample_state = Ret () \<longrightarrow> rest = [])))))) \<and>
   after_compile (events_of (compileFileToCUBIN (sample_ext False 6 ''e1'') (Some ''k.cu'') 1 [''/a/x''] 0) sample_state) =
     [Ev_nvrtcGetProgramLogSize 1 0 3,
      Ev_nvrtcGetProgramLog 1 0 (''e1'' @ [CHR 0x00]),
      Ev_free 2,
      Ev_nvrtcGetErrorString 6 ''NVRTC_ERROR_COMPILATION''] \<and>
   printed_err (compileFileToCUBIN (sample_ext False 6 ''e1'') (Some ''k.cu'') 1 [''/a/x''] 0) sample_state =
     [CHR 0x0A # '' compilation log ---'' @ [CHR 0x0A], ''e1'',
      CHR 0x0A # '' end log ---'' @ [CHR 0x0A],
      CHR 0x0A # ''error: '', ''nvrtcCompileProgram'', '' failed with error '',
      ''NVRTC_ERROR_COMPILATION''] \<and>
   outcome (compileFileToCUBIN (sample_ext False 6 ''e1'') (Some ''k.cu'') 1 [''/a/x''] 0) sample_state = Exited 1"
proof -
  have a: "Ev_nvrtcCompileProgram 1 [''--gpu-architecture=sm_86''] 6
             \<in> set (events_of (compileFileToCUBIN (sample_ext False 6 ''e1'') (Some ''k.cu'') 1 [''/a/x''] 0) sample_state)"
    using sample_compile_fails by (simp add: sample_compile_def)
  have b: "outcome (compileFileToCUBIN (sample_ext False 6 ''e1'') (Some ''k.cu'') 1 [''/a/x''] 0) sample_state \<noteq> Undefined"
    using sample_compile_fails by (simp add: sample_compile_def)
  have c: "after_compile (events_of (compileFileToCUBIN (sample_ext False 6 ''e1'') (Some ''k.cu'') 1 [''/a/x''] 0) sample_state) =
     [Ev_nvrtcGetProgramLogSize 1 0 3,
      Ev_nvrtcGetProgramLog 1 0 (''e1'' @ [CHR 0x00]),
      Ev_free 2,
      Ev_nvrtcGetErrorString 6 ''NVRTC_ERROR_COMPILATION'']"
    using sample_compile_fails by (simp add: sample_compile_def)
  have d: "printed_err (compileFileToCUBIN (sample_ext False 6 ''e1'') (Some ''k.cu'') 1 [''/a/x''] 0) sample_state =
     [CHR 0x0A # '' compilation log ---'' @ [CHR 0x0A], ''e1'',
      CHR 0x0A # '' end log ---'' @ [CHR 0x0A],
      CHR 0x0A # ''error: '', ''nvrtcCompileProgram'', '' failed with error '',
      ''NVRTC_ERROR_COMPILATION'']"
    and e: "outcome (compileFileToCUBIN (sample_ext False 6 ''e1'') (Some ''k.cu'') 1 [''/a/x''] 0) sample_state = Exited 1"
    using sample_compile_fails by (simp_all add: sample_compile_def)
  have t: "(\<exists>r logSize evs1.
      after_compile (events_of (compileFileToCUBIN (sample_ext False 6 ''e1'') (Some ''k.cu'') 1 [''/a/x''] 0) sample_state)
        = Ev_nvrtcGetProgramLogSize 1 r logSize # evs1 \<and>
      (r \<noteq> NVRTC_SUCCESS \<longrightarrow>
         (\<exists>msg. evs1 = [Ev_nvrtcGetErrorString r msg]) \<and>
         outcome (compileFileToCUBIN (sample_ext False 6 ''e1'') (Some ''k.cu'') 1 [''/a/x''] 0) sample_state = Exited 1) \<and>
      (r = NVRTC_SUCCESS \<longrightarrow>
         (\<exists>r2 stored evs2.
            evs1 = Ev_nvrtcGetProgramLog 1 r2 stored # evs2 \<and>
            (r2 \<noteq> NVRTC_SUCCESS \<longrightarrow>
               (\<exists>msg. evs2 = [Ev_nvrtcGetErrorString r2 msg]) \<and>
               outcome (compileFileToCUBIN (sample_ext False 6 ''e1'') (Some ''k.cu'') 1 [''/a/x''] 0) sample_state = Exited 1) \<and>
            (r2 = NVRTC_SUCCESS \<longrightarrow>
               (\<exists>rest.
                  printed_err (compileFileToCUBIN (sample_ext False 6 ''e1'') (Some ''k.cu'') 1 [''/a/x''] 0) sample_state =
                    (if strlen (take logSize stored @ [NUL]) \<ge> 2 then
                       [NL # '' compilation log ---'' @ [NL],
                        c_str (take logSize stored @ [NUL]),
                        NL # '' end log ---'' @ [NL]]
                     else []) @ rest \<and>
                  (6 \<noteq> NVRTC_SUCCESS \<longrightarrow>
                     outcome (compileFileToCUBIN (sample_ext False 6 ''e1'') (Some ''k.cu'') 1 [''/a/x''] 0) sample_state = Exited 1 \<and>
                     (\<exists>log msg.
                        evs2 = [Ev_free log, Ev_nvrtcGetErrorString 6 msg] \<and>
                        rest = diagnostic ''nvrtcCompileProgram'' msg)) \<and>
                  (outcome (compileFileToCUBIN (sample_ext False 6 ''e1'') (Some ''k.cu'') 1 [''/a/x''] 0) sample_state = Ret () \<longrightarrow> rest = []))))))"
    by (rule log_dumped_before_compile_check [OF refl a b])
  from a b t c d e show ?thesis
    by (intro conjI)
qed

end
